theory Spec2Isabelle
  imports Complex_Main "HOL-Library.AList"
begin

section \<open>Python values\<close>

text \<open>
  The review pipeline works on decoded JSON: a raw review is a \<open>dict[str, Any]\<close>. A value
  is therefore one of the JSON shapes. A \<open>str\<close> is the list of its code points, any of
  U+0000 to U+10FFFF, the surrogates U+D800 to U+DFFF included: \<open>json.loads\<close> delivers a
  lone surrogate from the escape \<open>\ud800\<close>. A \<open>dict\<close> is an association list in insertion
  order whose first entry for a key is the one \<open>get\<close> finds; a finite \<open>float\<close> is the
  rational number it denotes.
\<close>

type_synonym pystr = "int list"

text \<open>A string literal of the source, as the \<open>str\<close> it denotes.\<close>

definition str :: "string \<Rightarrow> pystr" where
  "str s = map of_char s"

datatype pyfloat = Finite rat | PosInf | NegInf | NaN

datatype pyval =
    VNone
  | VBool bool
  | VInt int
  | VFloat pyfloat
  | VStr pystr
  | VList "pyval list"
  | VDict "(pystr \<times> pyval) list"

type_synonym pydict = "(pystr \<times> pyval) list"

text \<open>Every \<open>raise\<close> of the source and of the builtins it calls is a value.\<close>

datatype pyerr =
    ValueError
  | TypeError
  | AttributeError
  | IndexError
  | OverflowError
  | UnicodeEncodeError

text \<open>\<open>bool(v)\<close>, the test behind \<open>if v\<close>, \<open>not v\<close> and \<open>a or b\<close>.\<close>

fun truthy :: "pyval \<Rightarrow> bool" where
  "truthy VNone = False"
| "truthy (VBool b) = b"
| "truthy (VInt n) = (n \<noteq> 0)"
| "truthy (VFloat f) = (f \<noteq> Finite 0)"
| "truthy (VStr s) = (s \<noteq> [])"
| "truthy (VList xs) = (xs \<noteq> [])"
| "truthy (VDict d) = (d \<noteq> [])"

definition py_or :: "pyval \<Rightarrow> pyval \<Rightarrow> pyval" where
  "py_or a b = (if truthy a then a else b)"

text \<open>
  \<open>d.get(k)\<close> and \<open>d.get(k, default)\<close>. Every key that the source looks up is a string
  literal, so the key is given as one.
\<close>

definition dict_get :: "pydict \<Rightarrow> string \<Rightarrow> pyval" where
  "dict_get d k = (case map_of d (str k) of None \<Rightarrow> VNone | Some v \<Rightarrow> v)"

definition dict_get_default :: "pydict \<Rightarrow> string \<Rightarrow> pyval \<Rightarrow> pyval" where
  "dict_get_default d k dflt = (case map_of d (str k) of None \<Rightarrow> dflt | Some v \<Rightarrow> v)"

subsection \<open>Strings\<close>

text \<open>
  \<open>str.strip()\<close> removes, at both ends, the code points for which \<open>str.isspace\<close> holds:
  TAB to CR, FS to US, space, NEL, NBSP, U+1680, U+2000 to U+200A, U+2028, U+2029, U+202F,
  U+205F and U+3000.
\<close>

definition is_space :: "int \<Rightarrow> bool" where
  "is_space c =
     ((9 \<le> c \<and> c \<le> 13) \<or> (28 \<le> c \<and> c \<le> 32) \<or> c = 133 \<or> c = 160 \<or> c = 5760
      \<or> (8192 \<le> c \<and> c \<le> 8202) \<or> c = 8232 \<or> c = 8233 \<or> c = 8239 \<or> c = 8287
      \<or> c = 12288)"

definition py_strip :: "pystr \<Rightarrow> pystr" where
  "py_strip s = rev (dropWhile is_space (rev (dropWhile is_space s)))"

text \<open>\<open>v.replace("Z", "+00:00")\<close>: every occurrence of the one-character pattern.\<close>

definition replace_Z :: "pystr \<Rightarrow> pystr" where
  "replace_Z v = concat (map (\<lambda>c. if c = 90 then str ''+00:00'' else [c]) v)"

text \<open>
  \<open>s.encode("utf-8")\<close>: one to four bytes per code point. A surrogate has no encoding and
  raises \<open>UnicodeEncodeError\<close>.
\<close>

definition encodable :: "int \<Rightarrow> bool" where
  "encodable c = (0 \<le> c \<and> c \<le> 1114111 \<and> \<not> (55296 \<le> c \<and> c \<le> 57343))"

definition utf8_bytes :: "int \<Rightarrow> int list" where
  "utf8_bytes c =
     (if c < 128 then [c]
      else if c < 2048 then [192 + c div 64, 128 + c mod 64]
      else if c < 65536 then [224 + c div 4096, 128 + (c div 64) mod 64, 128 + c mod 64]
      else [240 + c div 262144, 128 + (c div 4096) mod 64, 128 + (c div 64) mod 64,
            128 + c mod 64])"

definition utf8_encode :: "pystr \<Rightarrow> pyerr + int list" where
  "utf8_encode s =
     (if list_all encodable s then Inr (concat (map utf8_bytes s)) else Inl UnicodeEncodeError)"

subsection \<open>Numbers\<close>

text \<open>\<open>int(f)\<close> on a float truncates towards zero and rejects the non-finite values.\<close>

definition trunc_rat :: "rat \<Rightarrow> int" where
  "trunc_rat q = (if 0 \<le> q then \<lfloor>q\<rfloor> else \<lceil>q\<rceil>)"

definition int_of_float :: "pyfloat \<Rightarrow> pyerr + int" where
  "int_of_float f = (case f of
       Finite q \<Rightarrow> Inr (trunc_rat q)
     | PosInf \<Rightarrow> Inl OverflowError
     | NegInf \<Rightarrow> Inl OverflowError
     | NaN \<Rightarrow> Inl ValueError)"

text \<open>
  The double nearest to a rational number, ties to even, for a number in the normal range
  of a double: 53 significant bits.
\<close>

function bit_length :: "int \<Rightarrow> int" where
  "bit_length n = (if n \<le> 0 then 0 else 1 + bit_length (n div 2))"
  by pat_completeness auto
termination
  by (relation "measure nat") auto

definition pow2 :: "int \<Rightarrow> rat" where
  "pow2 e = (if 0 \<le> e then 2 ^ nat e else 1 / 2 ^ nat (- e))"

definition floor_log2 :: "rat \<Rightarrow> int" where
  "floor_log2 q =
     (case quotient_of q of
        (a, b) \<Rightarrow> let e = bit_length a - bit_length b in if pow2 e \<le> q then e else e - 1)"

definition round_half_even :: "rat \<Rightarrow> int" where
  "round_half_even q =
     (let f = \<lfloor>q\<rfloor>;
          r = q - of_int f
      in if r < 1 / 2 then f else if 1 / 2 < r then f + 1 else if even f then f else f + 1)"

definition double_of_rat :: "rat \<Rightarrow> rat" where
  "double_of_rat q =
     (if q = 0 then 0
      else let u = pow2 (floor_log2 \<bar>q\<bar> - 52) in of_int (round_half_even (q / u)) * u)"

subsection \<open>Datetimes\<close>

text \<open>
  A \<open>datetime\<close> is its wall-clock reading, in microseconds counted from
  1970-01-01T00:00:00, and its UTC offset in microseconds: \<open>None\<close> for a naive value
  (no \<open>tzinfo\<close>), \<open>Some 0\<close> for \<open>tzinfo=UTC\<close>. A \<open>datetime\<close> is always truthy.
\<close>

record datetime =
  wall :: int
  utcoffset :: "int option"

text \<open>The proleptic Gregorian day number of a civil date, counted from 1970-01-01.\<close>

definition days_from_civil :: "int \<Rightarrow> int \<Rightarrow> int \<Rightarrow> int" where
  "days_from_civil y m d =
     (let y' = (if m \<le> 2 then y - 1 else y);
          era = y' div 400;
          yoe = y' mod 400;
          doy = (153 * (if 2 < m then m - 3 else m + 9) + 2) div 5 + d - 1;
          doe = yoe * 365 + yoe div 4 - yoe div 100 + doy
      in era * 146097 + doe - 719468)"

text \<open>\<open>datetime(y, m, d, tzinfo=UTC)\<close>.\<close>

definition utc_datetime :: "int \<Rightarrow> int \<Rightarrow> int \<Rightarrow> datetime" where
  "utc_datetime y m d = \<lparr>wall = days_from_civil y m d * 86400000000, utcoffset = Some 0\<rparr>"

text \<open>\<open>dt.replace(tzinfo=UTC)\<close>.\<close>

definition replace_tzinfo_UTC :: "datetime \<Rightarrow> datetime" where
  "replace_tzinfo_UTC d = d\<lparr>utcoffset := Some 0\<rparr>"

text \<open>
  Ordering two datetimes: two naive values compare by wall clock, two aware values by
  instant, and a naive value against an aware one raises \<open>TypeError\<close>.
\<close>

definition dt_compare :: "(int \<Rightarrow> int \<Rightarrow> bool) \<Rightarrow> datetime \<Rightarrow> datetime \<Rightarrow> pyerr + bool" where
  "dt_compare rel a b = (case (utcoffset a, utcoffset b) of
       (None, None) \<Rightarrow> Inr (rel (wall a) (wall b))
     | (Some x, Some y) \<Rightarrow> Inr (rel (wall a - x) (wall b - y))
     | _ \<Rightarrow> Inl TypeError)"

definition dt_ge :: "datetime \<Rightarrow> datetime \<Rightarrow> pyerr + bool" where
  "dt_ge = dt_compare (\<lambda>x y. y \<le> x)"

definition dt_lt :: "datetime \<Rightarrow> datetime \<Rightarrow> pyerr + bool" where
  "dt_lt = dt_compare (\<lambda>x y. x < y)"

definition dt_gt :: "datetime \<Rightarrow> datetime \<Rightarrow> pyerr + bool" where
  "dt_gt = dt_compare (\<lambda>x y. y < x)"

section \<open>The standard library, as a parameter\<close>

text \<open>
  The services call into the Python runtime for number and date parsing, date formatting,
  case mapping, the local time zone and MD5. None of that is code of this repository, so
  the services take it as a record \<open>L\<close> and every general theorem below holds for each \<open>L\<close>.
  \<^item> \<open>float_of_str s\<close> is \<open>float(s)\<close> on a \<open>str\<close> (\<open>None\<close>: \<open>ValueError\<close>);
  \<^item> \<open>float_of_int n\<close> is \<open>float(n)\<close> on an \<open>int\<close> (\<open>None\<close>: \<open>OverflowError\<close>);
  \<^item> \<open>float_add\<close> is \<open>+\<close> on two floats;
  \<^item> \<open>str_of v\<close> is \<open>str(v)\<close> for a value that is not a \<open>str\<close>;
  \<^item> \<open>lower_at s i\<close> is what \<open>s.lower()\<close> puts in the place of the code point at index \<open>i\<close>
    of \<open>s\<close>: its first code point and the rest, so one code point at least (the Unicode
    case mapping gives one to three, and looks at the neighbours for a capital sigma);
  \<^item> \<open>fromisoformat s\<close> is \<open>datetime.fromisoformat(s)\<close> (\<open>None\<close>: \<open>ValueError\<close>);
  \<^item> \<open>strptime s fmt\<close> is \<open>datetime.strptime(s, fmt)\<close>, a naive value (\<open>None\<close>: \<open>ValueError\<close>);
  \<^item> \<open>strftime_ymd d\<close> is \<open>d.strftime("%Y-%m-%d")\<close>;
  \<^item> \<open>naive_timestamp w\<close> is \<open>int(d.timestamp())\<close> for the naive datetime \<open>d\<close> whose
    wall-clock reading is \<open>w\<close>: it goes through the machine's time zone, and it raises at
    the edge of the range of dates;
  \<^item> \<open>md5_digest bs\<close> is the MD5 digest of the bytes \<open>bs\<close>, as a number.
\<close>

record pylib =
  float_of_str :: "pystr \<Rightarrow> pyfloat option"
  float_of_int :: "int \<Rightarrow> pyfloat option"
  float_add :: "pyfloat \<Rightarrow> pyfloat \<Rightarrow> pyfloat"
  str_of :: "pyval \<Rightarrow> pystr"
  lower_at :: "pystr \<Rightarrow> nat \<Rightarrow> int \<times> int list"
  fromisoformat :: "pystr \<Rightarrow> datetime option"
  strptime :: "pystr \<Rightarrow> string \<Rightarrow> datetime option"
  strftime_ymd :: "datetime \<Rightarrow> pystr"
  naive_timestamp :: "int \<Rightarrow> pyerr + int"
  md5_digest :: "int list \<Rightarrow> int"

text \<open>\<open>float(v)\<close>.\<close>

definition py_float :: "pylib \<Rightarrow> pyval \<Rightarrow> pyerr + pyfloat" where
  "py_float L v = (case v of
       VBool b \<Rightarrow> Inr (Finite (if b then 1 else 0))
     | VInt n \<Rightarrow> (case float_of_int L n of None \<Rightarrow> Inl OverflowError | Some f \<Rightarrow> Inr f)
     | VFloat f \<Rightarrow> Inr f
     | VStr s \<Rightarrow> (case float_of_str L s of None \<Rightarrow> Inl ValueError | Some f \<Rightarrow> Inr f)
     | _ \<Rightarrow> Inl TypeError)"

text \<open>\<open>str(v)\<close>, which is also what an f-string field \<open>{v}\<close> renders.\<close>

definition py_str :: "pylib \<Rightarrow> pyval \<Rightarrow> pystr" where
  "py_str L v = (case v of VStr s \<Rightarrow> s | _ \<Rightarrow> str_of L v)"

text \<open>\<open>s.lower()\<close>.\<close>

definition py_lower :: "pylib \<Rightarrow> pystr \<Rightarrow> pystr" where
  "py_lower L s = concat (map (\<lambda>i. case lower_at L s i of (c, cs) \<Rightarrow> c # cs) [0..<length s])"

text \<open>
  \<open>int(dt.timestamp())\<close>. For an aware datetime \<open>timestamp()\<close> is the double nearest to the
  seconds from the epoch to the instant, and \<open>int\<close> truncates it towards zero; nothing
  raises. For a naive datetime it is the library's.
\<close>

definition timestamp_int :: "pylib \<Rightarrow> datetime \<Rightarrow> pyerr + int" where
  "timestamp_int L d =
     (case utcoffset d of
        Some off \<Rightarrow> Inr (trunc_rat (double_of_rat (of_int (wall d - off) / 1000000)))
      | None \<Rightarrow> naive_timestamp L (wall d))"

text \<open>
  \<open>hashlib.md5(s.encode("utf-8")).hexdigest()\<close>: 32 lower-case hexadecimal digits, or the
  \<open>UnicodeEncodeError\<close> of \<open>encode\<close>.
\<close>

definition hex_char :: "int \<Rightarrow> int" where
  "hex_char d = (let n = d mod 16 in if n < 10 then 48 + n else 87 + n)"

fun hexstr :: "nat \<Rightarrow> int \<Rightarrow> pystr" where
  "hexstr 0 n = []"
| "hexstr (Suc w) n = hexstr w (n div 16) @ [hex_char n]"

definition md5_hexdigest :: "pylib \<Rightarrow> pystr \<Rightarrow> pyerr + pystr" where
  "md5_hexdigest L s =
     (case utf8_encode s of
        Inl e \<Rightarrow> Inl e
      | Inr bs \<Rightarrow> Inr (hexstr 32 (md5_digest L bs mod 2 ^ 128)))"

text \<open>
  \<open>int(s, 16)\<close> on the digits of a digest. A string that is empty or holds anything but
  hexadecimal digits is given as \<open>ValueError\<close>; the other forms that \<open>int\<close> reads (a sign,
  a prefix, underscores, blanks) do not occur in a digest.
\<close>

definition hex_value :: "int \<Rightarrow> int option" where
  "hex_value c =
     (if 48 \<le> c \<and> c \<le> 57 then Some (c - 48)
      else if 97 \<le> c \<and> c \<le> 102 then Some (c - 87)
      else if 65 \<le> c \<and> c \<le> 70 then Some (c - 55)
      else None)"

fun int_base16_from :: "int \<Rightarrow> pystr \<Rightarrow> pyerr + int" where
  "int_base16_from acc [] = Inr acc"
| "int_base16_from acc (c # cs) =
     (case hex_value c of None \<Rightarrow> Inl ValueError | Some d \<Rightarrow> int_base16_from (acc * 16 + d) cs)"

definition int_base16 :: "pystr \<Rightarrow> pyerr + int" where
  "int_base16 s = (if s = [] then Inl ValueError else int_base16_from 0 s)"

text \<open>
  \<open>a + b\<close>: lists and strings concatenate, numbers add (an \<open>int\<close> meets a \<open>float\<close> as
  \<open>float(int)\<close>), every other pair of operands is a \<open>TypeError\<close>.
\<close>

definition as_int :: "pyval \<Rightarrow> int option" where
  "as_int v = (case v of VBool b \<Rightarrow> Some (if b then 1 else 0) | VInt n \<Rightarrow> Some n | _ \<Rightarrow> None)"

definition is_number :: "pyval \<Rightarrow> bool" where
  "is_number v = (case v of VBool b \<Rightarrow> True | VInt n \<Rightarrow> True | VFloat f \<Rightarrow> True | _ \<Rightarrow> False)"

definition num_add :: "pylib \<Rightarrow> pyval \<Rightarrow> pyval \<Rightarrow> pyerr + pyval" where
  "num_add L a b =
     (case (as_int a, as_int b) of
        (Some m, Some n) \<Rightarrow> Inr (VInt (m + n))
      | _ \<Rightarrow> (case (py_float L a, py_float L b) of
                 (Inr f, Inr g) \<Rightarrow> Inr (VFloat (float_add L f g))
               | _ \<Rightarrow> Inl OverflowError))"

definition py_add :: "pylib \<Rightarrow> pyval \<Rightarrow> pyval \<Rightarrow> pyerr + pyval" where
  "py_add L a b =
     (case a of
        VList xs \<Rightarrow> (case b of VList ys \<Rightarrow> Inr (VList (xs @ ys)) | _ \<Rightarrow> Inl TypeError)
      | VStr s \<Rightarrow> (case b of VStr t \<Rightarrow> Inr (VStr (s @ t)) | _ \<Rightarrow> Inl TypeError)
      | _ \<Rightarrow> if is_number a \<and> is_number b then num_add L a b else Inl TypeError)"

section \<open>ReviewEmbeddingService (services/embedding\_service.py)\<close>

text \<open>The constants set in \<open>__init__\<close>.\<close>

definition max_document_chars :: nat where
  "max_document_chars = 600"

definition v3_start :: datetime where
  "v3_start = utc_datetime 2025 10 4"

definition v2_start :: datetime where
  "v2_start = utc_datetime 2025 5 25"

text \<open>
  The loop over the four parsers, on a \<open>str\<close>: the first one that does not raise gives
  the result. \<open>_parse_any_date\<close> and \<open>SearchReviewService._parse_date\<close> run the same loop.
\<close>

definition try_parsers :: "pylib \<Rightarrow> pystr \<Rightarrow> datetime option" where
  "try_parsers L v =
     (case fromisoformat L (replace_Z v) of
        Some d \<Rightarrow> Some d
      | None \<Rightarrow>
     (case strptime L v ''%B %d, %Y'' of
        Some d \<Rightarrow> Some (replace_tzinfo_UTC d)
      | None \<Rightarrow>
     (case strptime L v ''%d %B %Y'' of
        Some d \<Rightarrow> Some (replace_tzinfo_UTC d)
      | None \<Rightarrow>
     (case strptime L v ''%Y-%m-%d'' of
        Some d \<Rightarrow> Some (replace_tzinfo_UTC d)
      | None \<Rightarrow> None))))"

text \<open>
  \<open>_parse_any_date\<close>. On a truthy value that is not a \<open>str\<close> each parser raises
  (\<open>AttributeError\<close> from \<open>v.replace\<close>, \<open>TypeError\<close> from \<open>strptime\<close>), which the loop
  catches: the result is \<open>None\<close>.
\<close>

definition parse_any_date :: "pylib \<Rightarrow> pyval \<Rightarrow> datetime option" where
  "parse_any_date L v =
     (if \<not> truthy v then None
      else case v of VStr s \<Rightarrow> try_parsers L s | _ \<Rightarrow> None)"

text \<open>\<open>_extract_raw_reviews\<close>.\<close>

definition extract_raw_reviews :: "pylib \<Rightarrow> pyval \<Rightarrow> pyerr + pyval" where
  "extract_raw_reviews L payload =
     (case payload of
        VList xs \<Rightarrow> Inr (VList xs)
      | VDict d \<Rightarrow>
          (case dict_get d ''reviews'' of
             VList rs \<Rightarrow> Inr (VList rs)
           | _ \<Rightarrow> py_add L (dict_get_default d ''google_play'' (VList []))
                            (dict_get_default d ''apple'' (VList [])))
      | _ \<Rightarrow> Inl ValueError)"

text \<open>
  \<open>_stable_review_id\<close>: the f-string \<open>raw\<close> of line 64, then the digest, whose \<open>encode\<close>
  raises on a surrogate.
\<close>

definition stable_id_source :: "pylib \<Rightarrow> pydict \<Rightarrow> pystr" where
  "stable_id_source L item =
     py_str L (dict_get_default item ''title'' (VStr []))
     @ str ''|''
     @ py_str L (py_or (py_or (dict_get item ''snippet'') (dict_get item ''text'')) (VStr []))
     @ str ''|''
     @ py_str L (py_or (py_or (dict_get item ''date'') (dict_get item ''review_date'')) (VStr []))"

definition stable_review_id :: "pylib \<Rightarrow> pydict \<Rightarrow> pyerr + pystr" where
  "stable_review_id L item =
     (let raw = stable_id_source L item
      in case md5_hexdigest L raw of
           Inl e \<Rightarrow> Inl e
         | Inr hexdigest \<Rightarrow> (let digest = take 12 hexdigest in Inr (str ''review-'' @ digest)))"

record normalized_review =
  review_id :: pyval
  review_title :: pyval
  review_rating :: int
  review_date :: pystr
  review_date_ts :: "int option"
  review_version :: pystr
  review_device :: pyval
  review_country :: pyval
  review_text :: pystr

text \<open>Lines 71 and 72 of \<open>_normalize_review_record\<close>: the rating.\<close>

definition rating_of :: "pylib \<Rightarrow> pydict \<Rightarrow> pyerr + int" where
  "rating_of L item =
     (case py_float L (py_or (dict_get item ''rating'') (VInt 0)) of
        Inl e \<Rightarrow> Inl e
      | Inr f \<Rightarrow>
          (case int_of_float f of
             Inl e \<Rightarrow> Inl e
           | Inr rating_val \<Rightarrow> Inr (max 1 (min 5 rating_val))))"

text \<open>
  Lines 74 to 76: the text. \<open>.strip()\<close> exists on a \<open>str\<close> only; any other truthy value
  raises \<open>AttributeError\<close>.
\<close>

definition text_of :: "pydict \<Rightarrow> pyerr + pystr" where
  "text_of item =
     (case py_or (py_or (dict_get item ''snippet'') (dict_get item ''text'')) (VStr []) of
        VStr t \<Rightarrow>
          (let review_text = py_strip t
           in if max_document_chars < length review_text
              then Inr (py_strip (take max_document_chars review_text))
              else Inr review_text)
      | _ \<Rightarrow> Inl AttributeError)"

text \<open>Lines 78 to 89: the version bucket.\<close>

definition version_of :: "pylib \<Rightarrow> pydict \<Rightarrow> datetime option \<Rightarrow> pyerr + pystr" where
  "version_of L item dt =
     (let raw_version = py_lower L (py_strip (py_str L (py_or (dict_get item ''version'') (VStr []))))
      in if raw_version \<in> {str ''v1'', str ''v2'', str ''v3''} then Inr raw_version
         else case dt of
           Some d \<Rightarrow>
             (case dt_ge d v3_start of
                Inl e \<Rightarrow> Inl e
              | Inr ge3 \<Rightarrow>
                  if ge3 then Inr (str ''v3'')
                  else (case dt_ge d v2_start of
                          Inl e \<Rightarrow> Inl e
                        | Inr ge2 \<Rightarrow> if ge2 then Inr (str ''v2'') else Inr (str ''v1'')))
         | None \<Rightarrow> Inr (str ''v1''))"

text \<open>
  Line 92: the id. \<open>_stable_review_id\<close> runs only when the source id is missing or falsy.
\<close>

definition id_of :: "pylib \<Rightarrow> pydict \<Rightarrow> pyerr + pyval" where
  "id_of L item =
     (if truthy (dict_get item ''id'') then Inr (dict_get item ''id'')
      else case stable_review_id L item of
             Inl e \<Rightarrow> Inl e
           | Inr sid \<Rightarrow> Inr (VStr sid))"

text \<open>
  Line 93: the title. \<open>(item.get("author") or {}).get("name")\<close> needs a \<open>dict\<close>; any other
  truthy author raises \<open>AttributeError\<close>.
\<close>

definition title_of :: "pydict \<Rightarrow> pyerr + pyval" where
  "title_of item =
     (if truthy (dict_get item ''title'') then Inr (dict_get item ''title'')
      else case py_or (dict_get item ''author'') (VDict []) of
             VDict a \<Rightarrow> Inr (py_or (dict_get a ''name'') (VStr (str ''Unknown'')))
           | _ \<Rightarrow> Inl AttributeError)"

text \<open>Line 96: the timestamp.\<close>

definition date_ts_of :: "pylib \<Rightarrow> datetime option \<Rightarrow> pyerr + int option" where
  "date_ts_of L dt =
     (case dt of
        None \<Rightarrow> Inr None
      | Some d \<Rightarrow> (case timestamp_int L d of Inl e \<Rightarrow> Inl e | Inr t \<Rightarrow> Inr (Some t)))"

text \<open>
  \<open>_normalize_review_record\<close>, its statements in the order of the source; the entries of
  the returned dictionary are evaluated from top to bottom.
\<close>

definition normalize_review_record :: "pylib \<Rightarrow> pydict \<Rightarrow> pyerr + normalized_review" where
  "normalize_review_record L item =
     (let dt = parse_any_date L
                 (py_or (py_or (dict_get item ''iso_date'') (dict_get item ''date''))
                        (dict_get item ''review_date''))
      in case rating_of L item of
           Inl e \<Rightarrow> Inl e
         | Inr rating_val \<Rightarrow>
       (case text_of item of
           Inl e \<Rightarrow> Inl e
         | Inr txt \<Rightarrow>
       (case version_of L item dt of
           Inl e \<Rightarrow> Inl e
         | Inr ver \<Rightarrow>
       (case id_of L item of
           Inl e \<Rightarrow> Inl e
         | Inr rid \<Rightarrow>
       (case title_of item of
           Inl e \<Rightarrow> Inl e
         | Inr ttl \<Rightarrow>
       (case date_ts_of L dt of
           Inl e \<Rightarrow> Inl e
         | Inr ts \<Rightarrow>
           Inr \<lparr>review_id = rid,
                review_title = ttl,
                review_rating = rating_val,
                review_date = (case dt of Some d \<Rightarrow> strftime_ymd L d | None \<Rightarrow> []),
                review_date_ts = ts,
                review_version = ver,
                review_device = py_or (dict_get item ''device'') (VStr (str ''Android'')),
                review_country = py_or (dict_get item ''country'') (VStr (str ''India'')),
                review_text = txt\<rparr>))))))"





section \<open>QdrantService (services/qdrant\_service.py)\<close>

text \<open>
  The collection is a map from numeric point id to vector and payload; \<open>client.upsert\<close>
  writes the points in order, a later point replacing an earlier one with the same id.
  The embedding provider is a parameter \<open>embedder\<close>, one vector per document.
\<close>

type_synonym 'v point = "int \<times> 'v \<times> pydict"

type_synonym 'v collection = "int \<rightharpoonup> 'v \<times> pydict"

definition upsert :: "'v collection \<Rightarrow> 'v point list \<Rightarrow> 'v collection" where
  "upsert store points = fold (\<lambda>p s. s(fst p \<mapsto> snd p)) points store"

definition points_count :: "'v collection \<Rightarrow> nat" where
  "points_count store = card (dom store)"

text \<open>\<open>_point_id\<close>; \<open>value.encode\<close> exists on a \<open>str\<close> only, and raises on a surrogate.\<close>

definition point_id :: "pylib \<Rightarrow> pyval \<Rightarrow> pyerr + int" where
  "point_id L v =
     (case v of
        VStr s \<Rightarrow>
          (case md5_hexdigest L s of
             Inl e \<Rightarrow> Inl e
           | Inr hexdigest \<Rightarrow> (let digest = take 15 hexdigest in int_base16 digest))
      | _ \<Rightarrow> Inl AttributeError)"

text \<open>\<open>payload = metadatas[i].copy(); payload["document"] = documents[i]\<close>.\<close>

definition payload_of :: "pydict \<Rightarrow> pystr \<Rightarrow> pydict" where
  "payload_of metadata document = AList.update (str ''document'') (VStr document) metadata"

text \<open>
  The loop of \<open>add_embeddings\<close> over \<open>range(len(ids))\<close>: each subscript raises
  \<open>IndexError\<close> past the end of its list.
\<close>

fun build_points ::
    "pylib \<Rightarrow> pyval list \<Rightarrow> pystr list \<Rightarrow> pydict list \<Rightarrow> 'v list \<Rightarrow> nat list
      \<Rightarrow> pyerr + 'v point list" where
  "build_points L ids documents metadatas embeddings [] = Inr []"
| "build_points L ids documents metadatas embeddings (i # rest) =
     (if length metadatas \<le> i then Inl IndexError
      else if length documents \<le> i then Inl IndexError
      else (case point_id L (ids ! i) of
              Inl e \<Rightarrow> Inl e
            | Inr pid \<Rightarrow>
                (if length embeddings \<le> i then Inl IndexError
                 else (case build_points L ids documents metadatas embeddings rest of
                         Inl e \<Rightarrow> Inl e
                       | Inr points \<Rightarrow>
                           Inr ((pid, embeddings ! i, payload_of (metadatas ! i) (documents ! i))
                                # points)))))"

text \<open>\<open>add_embeddings\<close>.\<close>

definition add_embeddings ::
    "(pystr \<Rightarrow> 'v) \<Rightarrow> pylib \<Rightarrow> pyval list \<Rightarrow> pystr list \<Rightarrow> pydict list \<Rightarrow> 'v collection
      \<Rightarrow> pyerr + 'v collection" where
  "add_embeddings embedder L ids documents metadatas store =
     (if ids = [] then Inr store
      else let embeddings = map embedder documents
           in case build_points L ids documents metadatas embeddings [0..<length ids] of
                Inl e \<Rightarrow> Inl e
              | Inr points \<Rightarrow> Inr (upsert store points))"

text \<open>
  The filter objects of the client library: \<open>FieldCondition(key, match)\<close>,
  \<open>FieldCondition(key, range)\<close>, \<open>MatchAny(any)\<close>, \<open>MatchValue(value)\<close>,
  \<open>Range(gte, lte)\<close> and \<open>Filter(must)\<close>. The key of a condition is a literal of the source.
\<close>

datatype qmatch = MatchAny "int list" | MatchValue pystr

datatype qrange = Range "int option" "int option"

datatype field_condition = FieldMatch string qmatch | FieldRange string qrange

datatype qfilter = Filter "field_condition list"

text \<open>The truth value of an \<open>int | None\<close>: both \<open>None\<close> and \<open>0\<close> are falsy.\<close>

definition opt_truthy :: "int option \<Rightarrow> bool" where
  "opt_truthy t = (case t of None \<Rightarrow> False | Some n \<Rightarrow> n \<noteq> 0)"

text \<open>\<open>build_filter\<close>.\<close>

definition build_filter ::
    "pylib \<Rightarrow> pystr \<Rightarrow> int list option \<Rightarrow> pystr \<Rightarrow> pystr \<Rightarrow> int option \<Rightarrow> int option
      \<Rightarrow> qfilter option" where
  "build_filter L device rating_values country version start_ts end_ts =
     (let clean = (case rating_values of
                     None \<Rightarrow> []
                   | Some rs \<Rightarrow> filter (\<lambda>r. r \<in> set [1, 2, 3, 4, 5]) rs);
          rating_conditions =
            (if clean \<noteq> [] then [FieldMatch ''rating'' (MatchAny clean)] else []);
          normalized_device = (if device \<noteq> [] then py_lower L (py_strip device) else []);
          normalized_country = (if country \<noteq> [] then py_lower L (py_strip country) else []);
          normalized_version = (if version \<noteq> [] then py_lower L (py_strip version) else []);
          device_conditions =
            (if normalized_device \<noteq> []
             then [FieldMatch ''device'' (MatchValue normalized_device)] else []);
          country_conditions =
            (if normalized_country \<noteq> []
             then [FieldMatch ''country'' (MatchValue normalized_country)] else []);
          version_conditions =
            (if normalized_version \<noteq> []
             then [FieldMatch ''version'' (MatchValue normalized_version)] else []);
          range_conditions =
            (if opt_truthy start_ts \<or> opt_truthy end_ts
             then [FieldRange ''date_ts'' (Range start_ts end_ts)] else []);
          must_conditions = rating_conditions @ device_conditions @ country_conditions
                            @ version_conditions @ range_conditions
      in if must_conditions \<noteq> [] then Some (Filter must_conditions) else None)"

text \<open>
  \<open>query\<close>. The embedding of the query text and the nearest-neighbour search of the
  client are the parameter \<open>search\<close>: text, limit and filter to scored points.
\<close>

record scored_point =
  sp_id :: int
  sp_payload :: "pydict option"
  sp_score :: rat

record query_results =
  res_ids :: "pyval list"
  res_documents :: "pyval list"
  res_metadatas :: "pydict list"
  res_distances :: "rat list"

type_synonym searcher = "pystr \<Rightarrow> nat \<Rightarrow> qfilter option \<Rightarrow> scored_point list"

definition payload_or_empty :: "scored_point \<Rightarrow> pydict" where
  "payload_or_empty r = (case sp_payload r of None \<Rightarrow> [] | Some p \<Rightarrow> p)"

definition qdrant_query :: "searcher \<Rightarrow> pylib \<Rightarrow> pystr \<Rightarrow> nat \<Rightarrow> qfilter option \<Rightarrow> query_results" where
  "qdrant_query search L query_text n_results filters =
     (let results = search query_text n_results filters
      in \<lparr>res_ids = map (\<lambda>r. py_or (dict_get (payload_or_empty r) ''id'')
                                   (VStr (py_str L (VInt (sp_id r))))) results,
          res_documents = map (\<lambda>r. dict_get_default (payload_or_empty r) ''document'' (VStr [])) results,
          res_metadatas = map (\<lambda>r. filter (\<lambda>kv. fst kv \<noteq> str ''document'') (payload_or_empty r)) results,
          res_distances = map sp_score results\<rparr>)"

section \<open>Ingestion (services/embedding\_service.py, continued)\<close>




section \<open>SearchReviewService (services/search\_review\_service.py)\<close>

text \<open>\<open>_parse_date\<close>, on an \<open>Optional[str]\<close>.\<close>

definition parse_date :: "pylib \<Rightarrow> pystr option \<Rightarrow> datetime option" where
  "parse_date L v =
     (case v of
        None \<Rightarrow> None
      | Some s \<Rightarrow> if s = [] then None else try_parsers L s)"

text \<open>\<open>_is_date_in_range\<close>.\<close>

definition is_date_in_range ::
    "pylib \<Rightarrow> pystr \<Rightarrow> datetime option \<Rightarrow> datetime option \<Rightarrow> pyerr + bool" where
  "is_date_in_range L v start_dt end_dt =
     (if start_dt = None \<and> end_dt = None then Inr True
      else case parse_date L (Some v) of
        None \<Rightarrow> Inr False
      | Some dt \<Rightarrow>
          (case (case start_dt of None \<Rightarrow> Inr False | Some s \<Rightarrow> dt_lt dt s) of
             Inl e \<Rightarrow> Inl e
           | Inr before \<Rightarrow>
               if before then Inr False
               else (case (case end_dt of None \<Rightarrow> Inr False | Some e \<Rightarrow> dt_gt dt e) of
                       Inl e \<Rightarrow> Inl e
                     | Inr after \<Rightarrow> if after then Inr False else Inr True)))"

record evidence =
  ev_text :: pyval
  ev_metadata :: pydict

record query_result =
  qr_question :: pystr
  qr_retrieved_documents :: "evidence list"
  qr_applied_filters :: pydict
  qr_notes :: "pystr list"

text \<open>The evidence item built from result \<open>i\<close> (lines 116 to 128).\<close>

definition evidence_at :: "pylib \<Rightarrow> query_results \<Rightarrow> nat \<Rightarrow> evidence" where
  "evidence_at L results i =
     (let metadata = res_metadatas results ! i;
          text = res_documents results ! i
      in \<lparr>ev_text = text,
          ev_metadata =
            [(str ''id'', py_or (dict_get metadata ''id'') (res_ids results ! i)),
             (str ''rating'', dict_get metadata ''rating''),
             (str ''date'', dict_get metadata ''date''),
             (str ''version'', dict_get metadata ''version''),
             (str ''device'', VStr (py_str L (py_or (dict_get metadata ''device'') (VStr [])))),
             (str ''country'', VStr (py_str L (py_or (dict_get metadata ''country'') (VStr []))))]\<rparr>)"

text \<open>
  The loop of \<open>query\<close> over the results (lines 109 to 130): the second-pass date filter,
  the append, and the \<open>break\<close> at twelve documents.
\<close>

fun collect_documents ::
    "pylib \<Rightarrow> query_results \<Rightarrow> datetime option \<Rightarrow> datetime option \<Rightarrow> nat list \<Rightarrow> evidence list
      \<Rightarrow> pyerr + evidence list" where
  "collect_documents L results start_dt end_dt [] retrieved = Inr retrieved"
| "collect_documents L results start_dt end_dt (i # rest) retrieved =
     (case is_date_in_range L
             (py_str L (py_or (dict_get (res_metadatas results ! i) ''date'') (VStr [])))
             start_dt end_dt of
        Inl e \<Rightarrow> Inl e
      | Inr keep \<Rightarrow>
          if \<not> keep then collect_documents L results start_dt end_dt rest retrieved
          else (let retrieved' = retrieved @ [evidence_at L results i]
                in if 12 \<le> length retrieved' then Inr retrieved'
                   else collect_documents L results start_dt end_dt rest retrieved'))"

text \<open>The note of line 78.\<close>

definition mobile_model_note :: "pystr \<Rightarrow> pystr" where
  "mobile_model_note effective_device =
     str ''The mobile_model filter is not supported in our current system and was ignored. ''
     @ str ''We used the device filter instead: '' @ effective_device @ str ''.''"

definition str_or_empty :: "pystr option \<Rightarrow> pystr" where
  "str_or_empty v = (case v of None \<Rightarrow> [] | Some s \<Rightarrow> s)"

text \<open>Lines 64 to 68: a timestamp of a bound, and the end of the day for the upper one.\<close>

definition bound_ts :: "pylib \<Rightarrow> datetime option \<Rightarrow> int \<Rightarrow> pyerr + int option" where
  "bound_ts L dt extra =
     (case dt of
        None \<Rightarrow> Inr None
      | Some d \<Rightarrow> (case timestamp_int L d of Inl e \<Rightarrow> Inl e | Inr t \<Rightarrow> Inr (Some (t + extra))))"

text \<open>
  The index-level filter of \<open>query\<close>: lines 62 to 74 prepare its arguments and lines 97
  to 104 build it.
\<close>

definition query_filter ::
    "pylib \<Rightarrow> pystr option \<Rightarrow> pystr option \<Rightarrow> pystr option \<Rightarrow> int list option
      \<Rightarrow> pystr option \<Rightarrow> pystr option \<Rightarrow> pyerr + qfilter option" where
  "query_filter L start_date end_date device rating country version =
     (let start_dt = parse_date L start_date;
          end_dt = parse_date L end_date
      in case bound_ts L start_dt 0 of
           Inl e \<Rightarrow> Inl e
         | Inr start_ts \<Rightarrow>
       (case bound_ts L end_dt 86399 of
           Inl e \<Rightarrow> Inl e
         | Inr end_ts \<Rightarrow>
           (let normalized_device = py_lower L (str_or_empty device);
                normalized_country = py_lower L (py_strip (str_or_empty country));
                normalized_version = py_lower L (py_strip (str_or_empty version));
                rating_values = filter (\<lambda>r. r \<in> set [1, 2, 3, 4, 5])
                                  (case rating of None \<Rightarrow> [] | Some rs \<Rightarrow> rs)
            in Inr (build_filter L normalized_device (Some rating_values) normalized_country
                      normalized_version start_ts end_ts))))"

text \<open>
  \<open>query\<close>. The result's \<open>applied_filters\<close> is the dictionary under the key
  \<open>"qdrant_filter"\<close>; the fixed \<open>next_action\<close> text is left out.
\<close>

definition query ::
    "searcher \<Rightarrow> pylib \<Rightarrow> pystr \<Rightarrow> pystr option \<Rightarrow> pystr option \<Rightarrow> pystr option
      \<Rightarrow> int list option \<Rightarrow> pystr option \<Rightarrow> pystr option \<Rightarrow> pystr option
      \<Rightarrow> pyerr + query_result" where
  "query search L question start_date end_date device rating country version mobile_model =
     (let start_dt = parse_date L start_date;
          end_dt = parse_date L end_date;
          normalized_device = py_lower L (str_or_empty device);
          normalized_country = py_lower L (py_strip (str_or_empty country));
          normalized_version = py_lower L (py_strip (str_or_empty version));
          rating_values = filter (\<lambda>r. r \<in> set [1, 2, 3, 4, 5])
                            (case rating of None \<Rightarrow> [] | Some rs \<Rightarrow> rs);
          notes = (if str_or_empty mobile_model \<noteq> []
                   then [mobile_model_note (if normalized_device = str ''ios'' then str ''iOS''
                                            else str ''Android'')]
                   else []);
          applied_filters =
              (if str_or_empty start_date \<noteq> []
               then [(str ''start_date'', VStr (str_or_empty start_date))] else [])
            @ (if str_or_empty end_date \<noteq> []
               then [(str ''end_date'', VStr (str_or_empty end_date))] else [])
            @ (if normalized_device \<noteq> []
               then [(str ''device'', VStr (if normalized_device = str ''ios'' then str ''iOS''
                                           else str ''Android''))] else [])
            @ (if rating_values \<noteq> [] then [(str ''rating'', VList (map VInt rating_values))] else [])
            @ (if normalized_country \<noteq> [] then [(str ''country'', VStr normalized_country)] else [])
            @ (if normalized_version \<noteq> [] then [(str ''version'', VStr normalized_version)] else [])
      in case query_filter L start_date end_date device rating country version of
           Inl e \<Rightarrow> Inl e
         | Inr qdrant_filter \<Rightarrow>
             (let results = qdrant_query search L question 12 qdrant_filter
              in case collect_documents L results start_dt end_dt [0..<length (res_ids results)] [] of
                   Inl e \<Rightarrow> Inl e
                 | Inr retrieved_documents \<Rightarrow>
                     Inr \<lparr>qr_question = question,
                          qr_retrieved_documents = retrieved_documents,
                          qr_applied_filters = applied_filters,
                          qr_notes = notes\<rparr>))"

section \<open>A reference library\<close>

text \<open>
  The examples below run the services on a concrete library \<open>L0\<close>. Each of its functions
  follows CPython 3.11 (on Linux) on the grammar named in its comment and rejects every
  other input, so \<open>L0\<close> is used only on inputs inside these grammars.
\<close>

definition digit_value :: "int \<Rightarrow> int option" where
  "digit_value c = (if 48 \<le> c \<and> c \<le> 57 then Some (c - 48) else None)"

definition is_digit :: "int \<Rightarrow> bool" where
  "is_digit c = (digit_value c \<noteq> None)"

fun int_of_digits :: "int \<Rightarrow> pystr \<Rightarrow> int option" where
  "int_of_digits acc [] = Some acc"
| "int_of_digits acc (c # cs) =
     (case digit_value c of None \<Rightarrow> None | Some d \<Rightarrow> int_of_digits (10 * acc + d) cs)"

definition parse_digits :: "pystr \<Rightarrow> int option" where
  "parse_digits s = (if s = [] then None else int_of_digits 0 s)"

text \<open>
  \<open>float(s)\<close> on an optionally signed decimal literal \<open>digits[.digits]\<close>, \<open>digits.\<close> or
  \<open>.digits\<close> of ASCII digits with surrounding whitespace. The value is the exact decimal,
  which is what the nearest double truncates to for literals of up to fifteen significant
  digits.
\<close>

definition decimal_value :: "pystr \<Rightarrow> rat option" where
  "decimal_value body =
     (let ip = takeWhile (\<lambda>c. c \<noteq> 46) body;
          rest = dropWhile (\<lambda>c. c \<noteq> 46) body
      in if rest = [] then map_option of_int (parse_digits ip)
         else let fp = tl rest
              in if ip = [] \<and> fp = [] then None
                 else (case (int_of_digits 0 ip, int_of_digits 0 fp) of
                         (Some a, Some b) \<Rightarrow> Some (of_int a + of_int b / of_int (10 ^ length fp))
                       | _ \<Rightarrow> None))"

definition float_of_str0 :: "pystr \<Rightarrow> pyfloat option" where
  "float_of_str0 s =
     (let t = py_strip s
      in case t of
           [] \<Rightarrow> None
         | c # cs \<Rightarrow>
             if c = 45 then map_option (\<lambda>q. Finite (- q)) (decimal_value cs)
             else if c = 43 then map_option Finite (decimal_value cs)
             else map_option Finite (decimal_value t))"

text \<open>
  \<open>float(n)\<close>: \<open>OverflowError\<close> from \<open>2^1024 - 2^970\<close> on; the value is exact, as it is in
  CPython for every \<open>int\<close> of magnitude up to \<open>2^53\<close>.
\<close>

definition float_of_int0 :: "int \<Rightarrow> pyfloat option" where
  "float_of_int0 n = (if \<bar>n\<bar> < 2 ^ 1024 - 2 ^ 970 then Some (Finite (of_int n)) else None)"

text \<open>\<open>+\<close> on floats, exact on finite operands.\<close>

definition float_add0 :: "pyfloat \<Rightarrow> pyfloat \<Rightarrow> pyfloat" where
  "float_add0 f g =
     (case (f, g) of
        (Finite a, Finite b) \<Rightarrow> Finite (a + b)
      | (NaN, _) \<Rightarrow> NaN
      | (_, NaN) \<Rightarrow> NaN
      | (PosInf, NegInf) \<Rightarrow> NaN
      | (NegInf, PosInf) \<Rightarrow> NaN
      | (PosInf, _) \<Rightarrow> PosInf
      | (_, PosInf) \<Rightarrow> PosInf
      | (NegInf, _) \<Rightarrow> NegInf
      | (_, NegInf) \<Rightarrow> NegInf)"

text \<open>The decimal digits of a number that is not negative.\<close>

function digits_of_int :: "int \<Rightarrow> pystr" where
  "digits_of_int n =
     (if n < 10 then [48 + n] else digits_of_int (n div 10) @ [48 + n mod 10])"
  by pat_completeness auto
termination
  by (relation "measure nat") auto

text \<open>\<open>str(v)\<close> for \<open>None\<close>, a \<open>bool\<close> and an \<open>int\<close>; no other value is rendered.\<close>

definition str_of0 :: "pyval \<Rightarrow> pystr" where
  "str_of0 v =
     (case v of
        VNone \<Rightarrow> str ''None''
      | VBool b \<Rightarrow> (if b then str ''True'' else str ''False'')
      | VInt n \<Rightarrow> (if n < 0 then 45 # digits_of_int (- n) else digits_of_int n)
      | _ \<Rightarrow> undefined)"

text \<open>
  \<open>lower()\<close> on code points below U+0100, A to Z and the Latin-1 capitals, each of which
  maps to one code point; a code point from U+0100 on is left as it is.
\<close>

definition lower_code_point :: "int \<Rightarrow> int" where
  "lower_code_point c =
     (if (65 \<le> c \<and> c \<le> 90) \<or> (192 \<le> c \<and> c \<le> 222 \<and> c \<noteq> 215) then c + 32 else c)"

definition lower_at0 :: "pystr \<Rightarrow> nat \<Rightarrow> int \<times> int list" where
  "lower_at0 s i = (lower_code_point (s ! i), [])"

text \<open>Calendar arithmetic for the date functions.\<close>

definition is_leap :: "int \<Rightarrow> bool" where
  "is_leap y = (y mod 4 = 0 \<and> (y mod 100 \<noteq> 0 \<or> y mod 400 = 0))"

definition days_in_month :: "int \<Rightarrow> int \<Rightarrow> int" where
  "days_in_month y m =
     (if m = 2 then (if is_leap y then 29 else 28)
      else if m \<in> {4, 6, 9, 11} then 30 else 31)"

text \<open>\<open>datetime(y, m, d)\<close>: naive midnight, or \<open>ValueError\<close> outside the calendar.\<close>

definition naive_date :: "int \<Rightarrow> int \<Rightarrow> int \<Rightarrow> datetime option" where
  "naive_date y m d =
     (if 1 \<le> y \<and> y \<le> 9999 \<and> 1 \<le> m \<and> m \<le> 12 \<and> 1 \<le> d \<and> d \<le> days_in_month y m
      then Some \<lparr>wall = days_from_civil y m d * 86400000000, utcoffset = None\<rparr>
      else None)"

definition civil_from_days :: "int \<Rightarrow> int \<times> int \<times> int" where
  "civil_from_days z =
     (let z' = z + 719468;
          era = z' div 146097;
          doe = z' mod 146097;
          yoe = (doe - doe div 1460 + doe div 36524 - doe div 146096) div 365;
          doy = doe - (365 * yoe + yoe div 4 - yoe div 100);
          mp = (5 * doy + 2) div 153;
          d = doy - (153 * mp + 2) div 5 + 1;
          m = (if mp < 10 then mp + 3 else mp - 9);
          y = yoe + era * 400
      in (if m \<le> 2 then y + 1 else y, m, d))"

text \<open>\<open>d.strftime("%Y-%m-%d")\<close>; the C library prints the year without padding.\<close>

definition pad_digits :: "nat \<Rightarrow> int \<Rightarrow> pystr" where
  "pad_digits w n = (let ds = digits_of_int n in replicate (w - length ds) 48 @ ds)"

definition strftime_ymd0 :: "datetime \<Rightarrow> pystr" where
  "strftime_ymd0 dt =
     (case civil_from_days (wall dt div 86400000000) of
        (y, m, d) \<Rightarrow> digits_of_int y @ str ''-'' @ pad_digits 2 m @ str ''-'' @ pad_digits 2 d)"

text \<open>
  \<open>datetime.fromisoformat\<close> on \<open>YYYY-MM-DD\<close> and on \<open>YYYY-MM-DD\<close>, one separator
  character, \<open>HH:MM:SS\<close> and an optional offset \<open>+HH:MM\<close> or \<open>-HH:MM\<close>, in ASCII digits.
  Without an offset the result is naive.
\<close>

definition parse_fixed :: "nat \<Rightarrow> pystr \<Rightarrow> int option" where
  "parse_fixed w s = (if length s = w then parse_digits s else None)"

definition iso_date :: "pystr \<Rightarrow> datetime option" where
  "iso_date s =
     (if length s = 10 \<and> s ! 4 = 45 \<and> s ! 7 = 45
      then (case (parse_fixed 4 (take 4 s), parse_fixed 2 (take 2 (drop 5 s)), parse_fixed 2 (drop 8 s)) of
              (Some y, Some m, Some d) \<Rightarrow> naive_date y m d
            | _ \<Rightarrow> None)
      else None)"

definition iso_time :: "pystr \<Rightarrow> int option" where
  "iso_time s =
     (if length s = 8 \<and> s ! 2 = 58 \<and> s ! 5 = 58
      then (case (parse_fixed 2 (take 2 s), parse_fixed 2 (take 2 (drop 3 s)), parse_fixed 2 (drop 6 s)) of
              (Some h, Some m, Some sec) \<Rightarrow>
                if h < 24 \<and> m < 60 \<and> sec < 60 then Some (h * 3600 + m * 60 + sec) else None
            | _ \<Rightarrow> None)
      else None)"

definition iso_offset :: "pystr \<Rightarrow> int option option" where
  "iso_offset s =
     (if s = [] then Some None
      else if length s = 6 \<and> (s ! 0 = 43 \<or> s ! 0 = 45) \<and> s ! 3 = 58
      then (case (parse_fixed 2 (take 2 (drop 1 s)), parse_fixed 2 (drop 4 s)) of
              (Some h, Some m) \<Rightarrow>
                if h < 24 \<and> m < 60
                then Some (Some ((if s ! 0 = 45 then - 1 else 1)
                                 * (h * 3600 + m * 60) * 1000000))
                else None
            | _ \<Rightarrow> None)
      else None)"

definition fromisoformat0 :: "pystr \<Rightarrow> datetime option" where
  "fromisoformat0 s =
     (if length s = 10 then iso_date s
      else if 19 \<le> length s
      then (case (iso_date (take 10 s), iso_time (take 8 (drop 11 s)), iso_offset (drop 19 s)) of
              (Some d, Some t, Some off) \<Rightarrow> Some \<lparr>wall = wall d + t * 1000000, utcoffset = off\<rparr>
            | _ \<Rightarrow> None)
      else None)"

text \<open>
  \<open>datetime.strptime\<close> with the three formats of the services, in the C locale: an English
  month name in ASCII letters of any case, a day or month number of one or two digits, a
  year of four digits, and one or more whitespace characters where the format has a space.
\<close>

definition month_names :: "pystr list" where
  "month_names = map str [''january'', ''february'', ''march'', ''april'', ''may'', ''june'', ''july'',
                          ''august'', ''september'', ''october'', ''november'', ''december'']"

fun index_of :: "pystr \<Rightarrow> pystr list \<Rightarrow> int \<Rightarrow> int option" where
  "index_of x [] i = None"
| "index_of x (y # ys) i = (if x = y then Some i else index_of x ys (i + 1))"

definition month_of_name :: "pystr \<Rightarrow> int option" where
  "month_of_name name = index_of (map lower_code_point name) month_names 1"

definition is_alpha :: "int \<Rightarrow> bool" where
  "is_alpha c = ((65 \<le> c \<and> c \<le> 90) \<or> (97 \<le> c \<and> c \<le> 122))"

definition number_token :: "int \<Rightarrow> pystr \<Rightarrow> int option" where
  "number_token hi ds =
     (if length ds = 1 \<or> length ds = 2
      then (case parse_digits ds of
              Some n \<Rightarrow> if 1 \<le> n \<and> n \<le> hi then Some n else None
            | None \<Rightarrow> None)
      else None)"

definition skip_spaces :: "pystr \<Rightarrow> pystr option" where
  "skip_spaces s = (case s of [] \<Rightarrow> None | c # cs \<Rightarrow> if is_space c then Some (dropWhile is_space cs) else None)"

definition strptime_BdY :: "pystr \<Rightarrow> datetime option" where
  "strptime_BdY v =
     (let name = takeWhile is_alpha v;
          r1 = dropWhile is_alpha v
      in case (month_of_name name, skip_spaces r1) of
           (Some m, Some r2) \<Rightarrow>
             (let ds = takeWhile is_digit r2
              in case (number_token 31 ds, dropWhile is_digit r2) of
                   (Some d, c # r3) \<Rightarrow>
                     (if c = 44 then
                        (case skip_spaces r3 of
                           Some r4 \<Rightarrow> (case parse_fixed 4 r4 of Some y \<Rightarrow> naive_date y m d | None \<Rightarrow> None)
                         | None \<Rightarrow> None)
                      else None)
                 | _ \<Rightarrow> None)
         | _ \<Rightarrow> None)"

definition strptime_dBY :: "pystr \<Rightarrow> datetime option" where
  "strptime_dBY v =
     (let ds = takeWhile is_digit v
      in case (number_token 31 ds, skip_spaces (dropWhile is_digit v)) of
           (Some d, Some r1) \<Rightarrow>
             (let name = takeWhile is_alpha r1
              in case (month_of_name name, skip_spaces (dropWhile is_alpha r1)) of
                   (Some m, Some r2) \<Rightarrow>
                     (case parse_fixed 4 r2 of Some y \<Rightarrow> naive_date y m d | None \<Rightarrow> None)
                 | _ \<Rightarrow> None)
         | _ \<Rightarrow> None)"

definition strptime_Ymd :: "pystr \<Rightarrow> datetime option" where
  "strptime_Ymd v =
     (case (parse_fixed 4 (take 4 v), drop 4 v) of
        (Some y, c # r1) \<Rightarrow>
          (if c = 45 then
             (case (number_token 12 (takeWhile is_digit r1), dropWhile is_digit r1) of
                (Some m, c' # r2) \<Rightarrow>
                  (if c' = 45 then
                     (case number_token 31 r2 of Some d \<Rightarrow> naive_date y m d | None \<Rightarrow> None)
                   else None)
              | _ \<Rightarrow> None)
           else None)
      | _ \<Rightarrow> None)"

definition strptime0 :: "pystr \<Rightarrow> string \<Rightarrow> datetime option" where
  "strptime0 v fmt =
     (if fmt = ''%B %d, %Y'' then strptime_BdY v
      else if fmt = ''%d %B %Y'' then strptime_dBY v
      else if fmt = ''%Y-%m-%d'' then strptime_Ymd v
      else None)"

text \<open>
  \<open>int(d.timestamp())\<close> of a naive datetime on a machine whose local time zone is UTC:
  the reading is taken as UTC. \<open>timestamp()\<close> also looks up the local time of the day
  before, which does not exist for a reading before 0001-01-02T00:00:00: there it raises
  \<open>ValueError\<close> (year 0 is out of range).
\<close>

definition naive_timestamp0 :: "int \<Rightarrow> pyerr + int" where
  "naive_timestamp0 w =
     (if w < - 62135510400000000 then Inl ValueError
      else Inr (trunc_rat (double_of_rat (of_int w / 1000000))))"

text \<open>
  MD5 (RFC 1321), on 32-bit words written as integers modulo \<open>2^32\<close>; the digest is read
  as one big-endian number, so that its 32 hexadecimal digits are \<open>hexdigest()\<close>.
\<close>

unbundle bit_operations_syntax

definition md5_shifts :: "nat list" where
  "md5_shifts = concat (map (\<lambda>r. r @ r @ r @ r)
     [[7, 12, 17, 22], [5, 9, 14, 20], [4, 11, 16, 23], [6, 10, 15, 21]])"

definition md5_K :: "int list" where
  "md5_K = [
    0xd76aa478, 0xe8c7b756, 0x242070db, 0xc1bdceee, 0xf57c0faf, 0x4787c62a, 0xa8304613, 0xfd469501,
    0x698098d8, 0x8b44f7af, 0xffff5bb1, 0x895cd7be, 0x6b901122, 0xfd987193, 0xa679438e, 0x49b40821,
    0xf61e2562, 0xc040b340, 0x265e5a51, 0xe9b6c7aa, 0xd62f105d, 0x02441453, 0xd8a1e681, 0xe7d3fbc8,
    0x21e1cde6, 0xc33707d6, 0xf4d50d87, 0x455a14ed, 0xa9e3e905, 0xfcefa3f8, 0x676f02d9, 0x8d2a4c8a,
    0xfffa3942, 0x8771f681, 0x6d9d6122, 0xfde5380c, 0xa4beea44, 0x4bdecfa9, 0xf6bb4b60, 0xbebfbc70,
    0x289b7ec6, 0xeaa127fa, 0xd4ef3085, 0x04881d05, 0xd9d4d039, 0xe6db99e5, 0x1fa27cf8, 0xc4ac5665,
    0xf4292244, 0x432aff97, 0xab9423a7, 0xfc93a039, 0x655b59c3, 0x8f0ccc92, 0xffeff47d, 0x85845dd1,
    0x6fa87e4f, 0xfe2ce6e0, 0xa3014314, 0x4e0811a1, 0xf7537e82, 0xbd3af235, 0x2ad7d2bb, 0xeb86d391]"

definition md5_pad :: "int list \<Rightarrow> int list" where
  "md5_pad bs =
     (let n = length bs;
          zeros = (119 - n mod 64) mod 64;
          bits = 8 * int n
      in bs @ [128] @ replicate zeros 0 @ map (\<lambda>i. (bits div 256 ^ i) mod 256) [0..<8])"

fun chunks64 :: "nat \<Rightarrow> int list \<Rightarrow> int list list" where
  "chunks64 0 bs = []"
| "chunks64 (Suc k) bs = take 64 bs # chunks64 k (drop 64 bs)"

definition le_word :: "int list \<Rightarrow> int" where
  "le_word bs = bs ! 0 + 256 * bs ! 1 + 65536 * bs ! 2 + 16777216 * bs ! 3"

definition chunk_words :: "int list \<Rightarrow> int list" where
  "chunk_words chunk = map (\<lambda>j. le_word (take 4 (drop (4 * j) chunk))) [0..<16]"

definition w32 :: "int \<Rightarrow> int" where
  "w32 x = x mod 4294967296"

definition not32 :: "int \<Rightarrow> int" where
  "not32 x = 4294967295 - x"

definition rotl32 :: "nat \<Rightarrow> int \<Rightarrow> int" where
  "rotl32 k x = w32 (x * 2 ^ k) + x div 2 ^ (32 - k)"

type_synonym md5_state = "int \<times> int \<times> int \<times> int"

definition md5_step :: "int list \<Rightarrow> nat \<Rightarrow> md5_state \<Rightarrow> md5_state" where
  "md5_step M i st =
     (case st of (A, B, C, D) \<Rightarrow>
        let F = (if i < 16 then (B AND C) OR (not32 B AND D)
                 else if i < 32 then (D AND B) OR (not32 D AND C)
                 else if i < 48 then B XOR C XOR D
                 else C XOR (B OR not32 D));
            g = (if i < 16 then i
                 else if i < 32 then (5 * i + 1) mod 16
                 else if i < 48 then (3 * i + 5) mod 16
                 else (7 * i) mod 16);
            F' = w32 (F + A + md5_K ! i + M ! g)
        in (D, w32 (B + rotl32 (md5_shifts ! i) F'), B, C))"

definition md5_chunk :: "md5_state \<Rightarrow> int list \<Rightarrow> md5_state" where
  "md5_chunk st chunk =
     (case st of (a0, b0, c0, d0) \<Rightarrow>
        case fold (md5_step (chunk_words chunk)) [0..<64] st of
          (A, B, C, D) \<Rightarrow> (w32 (a0 + A), w32 (b0 + B), w32 (c0 + C), w32 (d0 + D)))"

definition word_bytes :: "int \<Rightarrow> int list" where
  "word_bytes w = map (\<lambda>i. (w div 256 ^ i) mod 256) [0..<4]"

definition md5_bytes :: "int list \<Rightarrow> int list" where
  "md5_bytes bs =
     (let padded = md5_pad bs
      in case fold (\<lambda>chunk st. md5_chunk st chunk) (chunks64 (length padded div 64) padded)
                (0x67452301, 0xefcdab89, 0x98badcfe, 0x10325476) of
           (a, b, c, d) \<Rightarrow> word_bytes a @ word_bytes b @ word_bytes c @ word_bytes d)"

definition md5_digest0 :: "int list \<Rightarrow> int" where
  "md5_digest0 bs = foldl (\<lambda>acc b. 256 * acc + b) 0 (md5_bytes bs)"

text \<open>The library of a machine whose local time zone is UTC.\<close>

definition L0 :: pylib where
  "L0 = \<lparr>float_of_str = float_of_str0,
          float_of_int = float_of_int0,
          float_add = float_add0,
          str_of = str_of0,
          lower_at = lower_at0,
          fromisoformat = fromisoformat0,
          strptime = strptime0,
          strftime_ymd = strftime_ymd0,
          naive_timestamp = naive_timestamp0,
          md5_digest = md5_digest0\<rparr>"

section \<open>Example inputs\<close>

text \<open>Three indexes: one finds nothing, one a dated review, one a dated and an undated review.\<close>

definition no_hits :: searcher where
  "no_hits query_text n_results filters = []"

definition stored_review :: scored_point where
  "stored_review =
     \<lparr>sp_id = 55460312933783979,
      sp_payload = Some [(str ''id'', VStr (str ''review-1'')), (str ''title'', VStr (str ''A'')),
                         (str ''rating'', VInt 5), (str ''date'', VStr (str ''2025-01-01'')),
                         (str ''date_ts'', VInt 1735745400), (str ''version'', VStr (str ''v1'')),
                         (str ''device'', VStr (str ''android'')),
                         (str ''country'', VStr (str ''india'')),
                         (str ''document'', VStr (str ''Great app''))],
      sp_score = 1\<rparr>"

definition undated_review :: scored_point where
  "undated_review =
     \<lparr>sp_id = 7,
      sp_payload = Some [(str ''id'', VStr (str ''review-2'')), (str ''title'', VStr (str ''B'')),
                         (str ''rating'', VInt 1), (str ''date'', VStr []),
                         (str ''date_ts'', VNone), (str ''version'', VStr (str ''v1'')),
                         (str ''device'', VStr (str ''ios'')),
                         (str ''country'', VStr (str ''india'')),
                         (str ''document'', VStr (str ''Crashes''))],
      sp_score = 1 / 2\<rparr>"

definition two_hits :: searcher where
  "two_hits query_text n_results filters = [stored_review, undated_review]"

definition one_hit :: searcher where
  "one_hit query_text n_results filters = [stored_review]"

text \<open>An embedding provider for the examples: the vector of a document is its length.\<close>

definition length_embedder :: "pystr \<Rightarrow> nat list" where
  "length_embedder document = [length document]"

text \<open>
  A raw review in the shape the store API delivers, with a display date and an ISO date;
  what normalization makes of it; and the point that holds it after ingestion.
\<close>

definition sample_review :: pydict where
  "sample_review =
     [(str ''title'', VStr (str ''A'')), (str ''snippet'', VStr (str ''Great app'')),
      (str ''rating'', VStr (str ''5'')), (str ''date'', VStr (str ''November 01, 2025'')),
      (str ''iso_date'', VStr (str ''2025-11-01T10:00:00Z''))]"


definition sample_point :: "nat list \<times> pydict" where
  "sample_point =
     ([9], [(str ''id'', VStr (str ''review-82a6479f4a84'')), (str ''title'', VStr (str ''A'')),
            (str ''rating'', VInt 5), (str ''date'', VStr (str ''2025-11-01'')),
            (str ''date_ts'', VInt 1761991200), (str ''version'', VStr (str ''v3'')),
            (str ''device'', VStr (str ''android'')), (str ''country'', VStr (str ''india'')),
            (str ''document'', VStr (str ''Great app''))])"

definition sample_collection :: "nat list collection" where
  "sample_collection = [53819393581031344 \<mapsto> sample_point]"

section \<open>The reference library on known values\<close>

text \<open>
  Test vectors of RFC 1321, dates in the forms the services accept, the encoding at the
  edges of its four lengths, and timestamps where the rounding to a double and the edge of
  the range show.
\<close>

lemma md5_test_vectors:
  "md5_hexdigest L0 [] = Inr (str ''d41d8cd98f00b204e9800998ecf8427e'')"
  "md5_hexdigest L0 (str ''abc'') = Inr (str ''900150983cd24fb0d6963f7d28e17f72'')"
  "md5_hexdigest L0 (str ''message digest'') = Inr (str ''f96b697d7cb7938d525a2f31aaf161d0'')"
  "md5_hexdigest L0 [55296] = Inl UnicodeEncodeError"
  by code_simp+

lemma utf8_encode_lengths:
  "utf8_encode [127, 128, 2047, 2048, 55295, 57344, 65535, 65536, 1114111]
     = Inr [127, 194, 128, 223, 191, 224, 160, 128, 237, 159, 191, 238, 128, 128,
            239, 191, 191, 240, 144, 128, 128, 244, 143, 191, 191]"
  "utf8_encode [97, 57343] = Inl UnicodeEncodeError"
  by code_simp+

lemma reference_dates:
  "fromisoformat0 (str ''2025-10-04'') = Some \<lparr>wall = 1759536000000000, utcoffset = None\<rparr>"
  "fromisoformat0 (replace_Z (str ''2025-10-04T00:00:00Z''))
     = Some \<lparr>wall = 1759536000000000, utcoffset = Some 0\<rparr>"
  "strptime0 (str ''January 1, 2025'') ''%B %d, %Y'' = Some \<lparr>wall = 1735689600000000, utcoffset = None\<rparr>"
  "strptime0 (str ''1 January 2025'') ''%d %B %Y'' = Some \<lparr>wall = 1735689600000000, utcoffset = None\<rparr>"
  "fromisoformat0 (str ''January 1, 2025'') = None"
  "strftime_ymd0 \<lparr>wall = 1759536000000000, utcoffset = Some 0\<rparr> = str ''2025-10-04''"
  by code_simp+

lemma reference_timestamps:
  "timestamp_int L0 \<lparr>wall = 1759536000000000, utcoffset = Some 0\<rparr> = Inr 1759536000"
  "timestamp_int L0 \<lparr>wall = 1759536000000000, utcoffset = None\<rparr> = Inr 1759536000"
  "timestamp_int L0 \<lparr>wall = 253402300799999999, utcoffset = Some 0\<rparr> = Inr 253402300800"
  "timestamp_int L0 \<lparr>wall = - 500000, utcoffset = Some 0\<rparr> = Inr 0"
  "timestamp_int L0 \<lparr>wall = - 62135596800000000, utcoffset = Some 0\<rparr> = Inr (- 62135596800)"
  "timestamp_int L0 \<lparr>wall = - 62135596800000000, utcoffset = None\<rparr> = Inl ValueError"
  "timestamp_int L0 \<lparr>wall = - 62135510400000000, utcoffset = None\<rparr> = Inr (- 62135510400)"
  by code_simp+

section \<open>Normalization\<close>

lemma str_not_empty: "s \<noteq> [] \<Longrightarrow> str s \<noteq> []"
  by (simp add: str_def)

lemma length_py_strip_le: "length (py_strip s) \<le> length s"
proof -
  have "length (py_strip s) = length (dropWhile is_space (rev (dropWhile is_space s)))"
    by (simp add: py_strip_def)
  also have "\<dots> \<le> length (rev (dropWhile is_space s))"
    by (rule length_dropWhile_le)
  also have "\<dots> \<le> length s"
    by (simp add: length_dropWhile_le)
  finally show ?thesis .
qed

lemma py_lower_empty: "py_lower L s = [] \<longleftrightarrow> s = []"
proof -
  have ne: "(case p of (c, cs) \<Rightarrow> c # cs) \<noteq> []" for p :: "int \<times> int list"
    by (cases p) simp
  show ?thesis
    unfolding py_lower_def by (auto simp: ne)
qed

lemma rating_of_range: "rating_of L item = Inr n \<Longrightarrow> 1 \<le> n \<and> n \<le> 5"
  by (auto simp: rating_of_def split: sum.splits)

lemma text_of_length: "text_of item = Inr t \<Longrightarrow> length t \<le> max_document_chars"
proof -
  assume a: "text_of item = Inr t"
  have "length (py_strip (take max_document_chars u)) \<le> max_document_chars" for u
    using length_py_strip_le [of "take max_document_chars u"] by simp
  with a show ?thesis
    by (auto simp: text_of_def Let_def split: pyval.splits if_splits)
qed

lemma version_of_tag: "version_of L item dt = Inr v \<Longrightarrow> v \<in> {str ''v1'', str ''v2'', str ''v3''}"
  by (auto simp: version_of_def Let_def split: if_splits option.splits sum.splits)

lemma version_of_aware:
  assumes "utcoffset d = Some off"
  shows "\<exists>v. version_of L item (Some d) = Inr v"
  using assms
  by (auto simp: version_of_def Let_def dt_ge_def dt_compare_def v3_start_def v2_start_def
      utc_datetime_def split: option.splits)

lemma version_of_no_date:
  "\<not> truthy (dict_get item ''version'') \<Longrightarrow> version_of L item None = Inr (str ''v1'')"
  by (simp add: version_of_def Let_def py_or_def py_str_def py_strip_def py_lower_def str_def)

lemma version_of_None_ex: "\<exists>v. version_of L item None = Inr v"
  by (simp add: version_of_def Let_def)

lemma md5_hexdigest_encodable:
  "list_all encodable s \<Longrightarrow> md5_hexdigest L s = Inr (hexstr 32 (md5_digest L (concat (map utf8_bytes s)) mod 2 ^ 128))"
  by (simp add: md5_hexdigest_def utf8_encode_def)

lemma md5_hexdigest_surrogate:
  "\<not> list_all encodable s \<Longrightarrow> md5_hexdigest L s = Inl UnicodeEncodeError"
  by (simp add: md5_hexdigest_def utf8_encode_def)

lemma id_of_ok:
  assumes "truthy (dict_get item ''id'') \<or> list_all encodable (stable_id_source L item)"
  shows "\<exists>rid. id_of L item = Inr rid"
  using assms
  by (auto simp: id_of_def stable_review_id_def Let_def md5_hexdigest_encodable)

lemma date_ts_of_aware:
  assumes "dt = None \<or> (\<exists>d off. dt = Some d \<and> utcoffset d = Some off)"
  shows "\<exists>ts. date_ts_of L dt = Inr ts \<and> (dt = None \<longrightarrow> ts = None)"
  using assms by (auto simp: date_ts_of_def timestamp_int_def)

lemma rating_of_invalid_string:
  assumes "py_or (dict_get item ''rating'') (VInt 0) = VStr s" and "float_of_str L s = None"
  shows "rating_of L item = Inl ValueError"
  using assms by (simp add: rating_of_def py_float_def)

text \<open>
  Claim C1, as amended. \<open>_normalize_review_record\<close> has no exception handler of its own. It
  returns a normalized review, with the documented defaults for what is missing or empty,
  whenever the rating (or \<open>0\<close> in its absence) converts to a finite float, the first truthy
  value among snippet and text is a string, the author is a dictionary when the title is
  missing, the date is unparseable or parses to a timezone-aware datetime, and the source
  id is present or the text that the fallback id hashes has no surrogate code point. On a
  rating string that \<open>float\<close> rejects it raises \<open>ValueError\<close>.
\<close>

theorem normalize_total_on_well_typed:
  "(py_float L (py_or (dict_get item ''rating'') (VInt 0)) = Inr (Finite q)
      \<and> py_or (py_or (dict_get item ''snippet'') (dict_get item ''text'')) (VStr []) = VStr t
      \<and> (truthy (dict_get item ''title'') \<or> py_or (dict_get item ''author'') (VDict []) = VDict a)
      \<and> parse_any_date L (py_or (py_or (dict_get item ''iso_date'') (dict_get item ''date''))
                 (dict_get item ''review_date'')) = dt
      \<and> (dt = None \<or> (\<exists>d off. dt = Some d \<and> utcoffset d = Some off))
      \<and> (truthy (dict_get item ''id'') \<or> list_all encodable (stable_id_source L item))
    \<longrightarrow> (\<exists>r. normalize_review_record L item = Inr r
           \<and> review_rating r = max 1 (min 5 (trunc_rat q))
           \<and> (dt = None \<longrightarrow> review_date r = [] \<and> review_date_ts r = None)
           \<and> (dt = None \<and> \<not> truthy (dict_get item ''version'') \<longrightarrow> review_version r = str ''v1'')
           \<and> (\<not> truthy (dict_get item ''title'') \<and> \<not> truthy (dict_get item ''author'')
                \<longrightarrow> review_title r = VStr (str ''Unknown''))
           \<and> (\<not> truthy (dict_get item ''device'') \<longrightarrow> review_device r = VStr (str ''Android''))
           \<and> (\<not> truthy (dict_get item ''country'') \<longrightarrow> review_country r = VStr (str ''India''))))
   \<and> (py_or (dict_get item ''rating'') (VInt 0) = VStr s \<and> float_of_str L s = None
    \<longrightarrow> normalize_review_record L item = Inl ValueError)"
proof (intro conjI impI)
  assume h: "py_float L (py_or (dict_get item ''rating'') (VInt 0)) = Inr (Finite q)
      \<and> py_or (py_or (dict_get item ''snippet'') (dict_get item ''text'')) (VStr []) = VStr t
      \<and> (truthy (dict_get item ''title'') \<or> py_or (dict_get item ''author'') (VDict []) = VDict a)
      \<and> parse_any_date L (py_or (py_or (dict_get item ''iso_date'') (dict_get item ''date''))
                 (dict_get item ''review_date'')) = dt
      \<and> (dt = None \<or> (\<exists>d off. dt = Some d \<and> utcoffset d = Some off))
      \<and> (truthy (dict_get item ''id'') \<or> list_all encodable (stable_id_source L item))"
  then have rating_ok: "py_float L (py_or (dict_get item ''rating'') (VInt 0)) = Inr (Finite q)"
    and text_ok: "py_or (py_or (dict_get item ''snippet'') (dict_get item ''text'')) (VStr []) = VStr t"
    and author_ok: "truthy (dict_get item ''title'') \<or> py_or (dict_get item ''author'') (VDict []) = VDict a"
    and date_eq: "parse_any_date L (py_or (py_or (dict_get item ''iso_date'') (dict_get item ''date''))
                 (dict_get item ''review_date'')) = dt"
    and aware: "dt = None \<or> (\<exists>d off. dt = Some d \<and> utcoffset d = Some off)"
    and id_ok: "truthy (dict_get item ''id'') \<or> list_all encodable (stable_id_source L item)"
    by blast+
  have r: "rating_of L item = Inr (max 1 (min 5 (trunc_rat q)))"
    using rating_ok by (simp add: rating_of_def int_of_float_def)
  have "\<exists>body. text_of item = Inr body"
    using text_ok by (simp add: text_of_def Let_def)
  then obtain body where t: "text_of item = Inr body" by blast
  obtain ver where v: "version_of L item dt = Inr ver"
    using aware version_of_aware version_of_None_ex by metis
  have v1: "dt = None \<and> \<not> truthy (dict_get item ''version'') \<longrightarrow> ver = str ''v1''"
    using v version_of_no_date by fastforce
  from id_of_ok [OF id_ok] obtain rid where i: "id_of L item = Inr rid" by blast
  have "\<exists>ttl. title_of item = Inr ttl"
    using author_ok by (auto simp: title_of_def)
  then obtain ttl where tt: "title_of item = Inr ttl" by blast
  have tu: "\<not> truthy (dict_get item ''title'') \<and> \<not> truthy (dict_get item ''author'')
              \<longrightarrow> ttl = VStr (str ''Unknown'')"
    using tt by (auto simp: title_of_def py_or_def dict_get_def)
  from date_ts_of_aware [OF aware] obtain ts where
    d: "date_ts_of L dt = Inr ts" and dn: "dt = None \<longrightarrow> ts = None" by blast
  show "\<exists>r. normalize_review_record L item = Inr r
           \<and> review_rating r = max 1 (min 5 (trunc_rat q))
           \<and> (dt = None \<longrightarrow> review_date r = [] \<and> review_date_ts r = None)
           \<and> (dt = None \<and> \<not> truthy (dict_get item ''version'') \<longrightarrow> review_version r = str ''v1'')
           \<and> (\<not> truthy (dict_get item ''title'') \<and> \<not> truthy (dict_get item ''author'')
                \<longrightarrow> review_title r = VStr (str ''Unknown''))
           \<and> (\<not> truthy (dict_get item ''device'') \<longrightarrow> review_device r = VStr (str ''Android''))
           \<and> (\<not> truthy (dict_get item ''country'') \<longrightarrow> review_country r = VStr (str ''India''))"
    using r t v v1 i tt tu d dn date_eq
    by (auto simp: normalize_review_record_def Let_def py_or_def)
next
  assume "py_or (dict_get item ''rating'') (VInt 0) = VStr s \<and> float_of_str L s = None"
  then have "rating_of L item = Inl ValueError"
    by (simp add: rating_of_invalid_string)
  then show "normalize_review_record L item = Inl ValueError"
    by (simp add: normalize_review_record_def Let_def)
qed

text \<open>
  The theorem at a review that has only a snippet and a numeric rating string, where every
  other field takes its default, and at a review whose rating is the word \<open>five\<close>.
\<close>

theorem normalize_total_on_well_typed_witness:
  "py_float L0 (py_or (dict_get [(str ''snippet'', VStr (str ''Crashes on login'')),
                                 (str ''rating'', VStr (str ''2''))] ''rating'') (VInt 0))
       = Inr (Finite 2)
   \<and> (\<exists>r. normalize_review_record L0 [(str ''snippet'', VStr (str ''Crashes on login'')),
                                      (str ''rating'', VStr (str ''2''))] = Inr r
         \<and> review_rating r = 2 \<and> review_date r = [] \<and> review_date_ts r = None
         \<and> review_version r = str ''v1'' \<and> review_title r = VStr (str ''Unknown'')
         \<and> review_device r = VStr (str ''Android'') \<and> review_country r = VStr (str ''India''))
   \<and> float_of_str L0 (str ''five'') = None
   \<and> normalize_review_record L0 [(str ''rating'', VStr (str ''five''))] = Inl ValueError"
proof -
  let ?item = "[(str ''snippet'', VStr (str ''Crashes on login'')), (str ''rating'', VStr (str ''2''))]"
  let ?bad = "[(str ''rating'', VStr (str ''five''))]"
  have h1: "py_float L0 (py_or (dict_get ?item ''rating'') (VInt 0)) = Inr (Finite 2)"
    by code_simp
  have h2: "py_or (py_or (dict_get ?item ''snippet'') (dict_get ?item ''text'')) (VStr [])
              = VStr (str ''Crashes on login'')"
    by code_simp
  have h3: "py_or (dict_get ?item ''author'') (VDict []) = VDict []"
    by code_simp
  have h4: "parse_any_date L0 (py_or (py_or (dict_get ?item ''iso_date'') (dict_get ?item ''date''))
                 (dict_get ?item ''review_date'')) = None"
    by code_simp
  have h6: "list_all encodable (stable_id_source L0 ?item)"
    by code_simp
  have t: "trunc_rat 2 = 2" by code_simp
  have f: "\<not> truthy (dict_get ?item ''version'')" "\<not> truthy (dict_get ?item ''title'')"
    "\<not> truthy (dict_get ?item ''author'')" "\<not> truthy (dict_get ?item ''device'')"
    "\<not> truthy (dict_get ?item ''country'')"
    by code_simp+
  have b1: "py_or (dict_get ?bad ''rating'') (VInt 0) = VStr (str ''five'')"
    by code_simp
  have b2: "float_of_str L0 (str ''five'') = None"
    by code_simp
  note good = normalize_total_on_well_typed
    [of L0 ?item 2 "str ''Crashes on login''" "[]" None]
  note bad = normalize_total_on_well_typed [of L0 ?bad _ _ _ _ "str ''five''"]
  from good h1 h2 h3 h4 h6 t f
  have c1: "\<exists>r. normalize_review_record L0 ?item = Inr r
         \<and> review_rating r = 2 \<and> review_date r = [] \<and> review_date_ts r = None
         \<and> review_version r = str ''v1'' \<and> review_title r = VStr (str ''Unknown'')
         \<and> review_device r = VStr (str ''Android'') \<and> review_country r = VStr (str ''India'')"
    by auto
  from bad b1 b2 have c2: "normalize_review_record L0 ?bad = Inl ValueError"
    by blast
  from h1 c1 b2 c2 show ?thesis by blast
qed

text \<open>
  Claim C1 as stated fails: on a rating string that is not a number, \<open>float\<close> raises
  \<open>ValueError\<close> and nothing catches it.
\<close>

theorem normalize_nonnumeric_rating_raises:
  "normalize_review_record L0 [(str ''rating'', VStr (str ''abc''))] = Inl ValueError"
  by code_simp

text \<open>
  Where the amended claim stops: a wrongly-typed text or author raises \<open>AttributeError\<close>,
  and a title that holds a lone surrogate, with no source id, raises
  \<open>UnicodeEncodeError\<close> from the fallback id.
\<close>

lemma normalize_other_raises:
  "normalize_review_record L0 [(str ''snippet'', VInt 7)] = Inl AttributeError"
  "normalize_review_record L0 [(str ''author'', VStr (str ''Asha''))] = Inl AttributeError"
  "normalize_review_record L0 [(str ''title'', VStr [55296]), (str ''rating'', VInt 5)]
     = Inl UnicodeEncodeError"
  "map_sum id review_id
     (normalize_review_record L0 [(str ''id'', VStr (str ''r1'')), (str ''title'', VStr [55296]),
                                  (str ''rating'', VInt 5)]) = Inr (VStr (str ''r1''))"
  by code_simp+

text \<open>
  Claim C4. Whenever \<open>_normalize_review_record\<close> returns, the rating is one of 1 to 5, the
  text has at most 600 characters and the version is one of the three tags.
\<close>

theorem normalize_invariants:
  assumes "normalize_review_record L item = Inr r"
  shows "review_rating r \<in> {1, 2, 3, 4, 5} \<and> length (review_text r) \<le> 600
         \<and> review_version r \<in> {str ''v1'', str ''v2'', str ''v3''}"
proof -
  from assms obtain n t v where
    n: "rating_of L item = Inr n" and t: "text_of item = Inr t"
    and v: "version_of L item (parse_any_date L (py_or (py_or (dict_get item ''iso_date'')
              (dict_get item ''date'')) (dict_get item ''review_date''))) = Inr v"
    and r: "review_rating r = n" "review_text r = t" "review_version r = v"
    by (auto simp: normalize_review_record_def Let_def split: sum.splits)
  from rating_of_range [OF n] have "n \<in> {1, 2, 3, 4, 5}" by auto
  moreover from text_of_length [OF t] have "length t \<le> 600" by (simp add: max_document_chars_def)
  moreover note version_of_tag [OF v]
  ultimately show ?thesis using r by simp
qed

text \<open>The theorem at a review rated \<open>9.7\<close>, which is clamped to 5.\<close>

theorem normalize_invariants_witness:
  "normalize_review_record L0
       [(str ''title'', VStr (str ''A'')), (str ''snippet'', VStr (str ''  Great app '')),
        (str ''rating'', VStr (str ''9.7'')), (str ''iso_date'', VStr (str ''2025-11-01T10:00:00Z''))]
     = Inr \<lparr>review_id = VStr (str ''review-37adf033ce31''), review_title = VStr (str ''A''),
             review_rating = 5, review_date = str ''2025-11-01'', review_date_ts = Some 1761991200,
             review_version = str ''v3'', review_device = VStr (str ''Android''),
             review_country = VStr (str ''India''), review_text = str ''Great app''\<rparr>
   \<and> (5::int) \<in> {1, 2, 3, 4, 5} \<and> length (str ''Great app'') \<le> 600
   \<and> str ''v3'' \<in> {str ''v1'', str ''v2'', str ''v3''}"
proof -
  have h: "normalize_review_record L0
       [(str ''title'', VStr (str ''A'')), (str ''snippet'', VStr (str ''  Great app '')),
        (str ''rating'', VStr (str ''9.7'')), (str ''iso_date'', VStr (str ''2025-11-01T10:00:00Z''))]
     = Inr \<lparr>review_id = VStr (str ''review-37adf033ce31''), review_title = VStr (str ''A''),
             review_rating = 5, review_date = str ''2025-11-01'', review_date_ts = Some 1761991200,
             review_version = str ''v3'', review_device = VStr (str ''Android''),
             review_country = VStr (str ''India''), review_text = str ''Great app''\<rparr>"
    by code_simp
  from normalize_invariants [OF h] h show ?thesis by simp
qed

text \<open>
  The version bucket where the code reaches it: an explicit tag wins, and a timezone-aware
  date is compared with the two cutover instants.
\<close>

lemma start_instants:
  "v3_start = \<lparr>wall = 1759536000000000, utcoffset = Some 0\<rparr>"
  "v2_start = \<lparr>wall = 1748131200000000, utcoffset = Some 0\<rparr>"
  by (simp_all add: v3_start_def v2_start_def utc_datetime_def days_from_civil_def)

lemma version_of_explicit:
  assumes "py_lower L (py_strip (py_str L (py_or (dict_get item ''version'') (VStr [])))) = v"
    and "v \<in> {str ''v1'', str ''v2'', str ''v3''}"
  shows "version_of L item dt = Inr v"
  using assms by (simp add: version_of_def Let_def)

lemma version_of_derived:
  assumes "py_lower L (py_strip (py_str L (py_or (dict_get item ''version'') (VStr []))))
             \<notin> {str ''v1'', str ''v2'', str ''v3''}"
    and "utcoffset d = Some off"
  shows "version_of L item (Some d)
         = Inr (if 1759536000000000 \<le> wall d - off then str ''v3''
                else if 1748131200000000 \<le> wall d - off then str ''v2'' else str ''v1'')"
  using assms
  by (simp add: version_of_def Let_def dt_ge_def dt_compare_def start_instants)

text \<open>
  Claim C5, at a failing input. A date without a UTC offset, such as \<open>2025-10-04\<close>, is
  accepted by the first parser, \<open>fromisoformat\<close>, as a naive datetime; comparing it with the
  timezone-aware \<open>v3_start\<close> raises \<open>TypeError\<close>, so the review is not classified at all.
  The same instant written with a \<open>Z\<close> suffix classifies as \<open>v3\<close>, and one second earlier
  as \<open>v2\<close>.
\<close>

theorem normalize_naive_date_raises:
  "normalize_review_record L0 [(str ''date'', VStr (str ''2025-10-04''))] = Inl TypeError
   \<and> map_sum id review_version
         (normalize_review_record L0 [(str ''iso_date'', VStr (str ''2025-10-04T00:00:00Z''))])
       = Inr (str ''v3'')
   \<and> map_sum id review_version
         (normalize_review_record L0 [(str ''iso_date'', VStr (str ''2025-10-03T23:59:59Z''))])
       = Inr (str ''v2'')"
  by code_simp

section \<open>Payload shapes\<close>

lemma num_add_not_ValueError: "num_add L a b \<noteq> Inl ValueError"
  by (simp add: num_add_def split: option.splits sum.splits)

lemma py_add_not_ValueError: "py_add L a b \<noteq> Inl ValueError"
  by (simp add: py_add_def num_add_not_ValueError split: pyval.splits)

text \<open>
  Claim C6, as amended. \<open>_extract_raw_reviews\<close> returns a bare list as it is, the list
  under \<open>reviews\<close> of a dictionary, and otherwise, for any dictionary, the concatenation of
  its \<open>google_play\<close> and \<open>apple\<close> lists, each taken as empty when its key is absent. It
  raises the validation error exactly when the payload is neither a list nor a dictionary.
\<close>

theorem extract_raw_reviews_shapes:
  "extract_raw_reviews L (VList xs) = Inr (VList xs)
   \<and> (dict_get d ''reviews'' = VList rs \<longrightarrow> extract_raw_reviews L (VDict d) = Inr (VList rs))
   \<and> ((\<forall>rs. dict_get d ''reviews'' \<noteq> VList rs)
        \<and> dict_get_default d ''google_play'' (VList []) = VList g
        \<and> dict_get_default d ''apple'' (VList []) = VList a
        \<longrightarrow> extract_raw_reviews L (VDict d) = Inr (VList (g @ a)))
   \<and> (extract_raw_reviews L payload = Inl ValueError
        \<longleftrightarrow> (\<forall>xs. payload \<noteq> VList xs) \<and> (\<forall>d. payload \<noteq> VDict d))"
proof (intro conjI impI)
  show "extract_raw_reviews L (VList xs) = Inr (VList xs)"
    by (simp add: extract_raw_reviews_def)
next
  assume "dict_get d ''reviews'' = VList rs"
  then show "extract_raw_reviews L (VDict d) = Inr (VList rs)"
    by (simp add: extract_raw_reviews_def)
next
  assume h: "(\<forall>rs. dict_get d ''reviews'' \<noteq> VList rs)
        \<and> dict_get_default d ''google_play'' (VList []) = VList g
        \<and> dict_get_default d ''apple'' (VList []) = VList a"
  then show "extract_raw_reviews L (VDict d) = Inr (VList (g @ a))"
    by (cases "dict_get d ''reviews''") (simp_all add: extract_raw_reviews_def py_add_def)
next
  show "extract_raw_reviews L payload = Inl ValueError
        \<longleftrightarrow> (\<forall>xs. payload \<noteq> VList xs) \<and> (\<forall>d. payload \<noteq> VDict d)"
    by (cases payload) (simp_all add: extract_raw_reviews_def py_add_not_ValueError split: pyval.splits)
qed

text \<open>The theorem at a \<open>reviews\<close> object, at an \<open>apple\<close>-only object and at a string.\<close>

theorem extract_raw_reviews_shapes_witness:
  "extract_raw_reviews L0 (VDict [(str ''reviews'', VList [VDict [(str ''id'', VStr (str ''r1''))]])])
      = Inr (VList [VDict [(str ''id'', VStr (str ''r1''))]])
   \<and> extract_raw_reviews L0 (VDict [(str ''apple'', VList [VDict [(str ''id'', VStr (str ''a1''))]])])
      = Inr (VList [VDict [(str ''id'', VStr (str ''a1''))]])
   \<and> extract_raw_reviews L0 (VStr (str ''reviews'')) = Inl ValueError"
proof -
  let ?r = "[(str ''reviews'', VList [VDict [(str ''id'', VStr (str ''r1''))]])]"
  let ?d = "[(str ''apple'', VList [VDict [(str ''id'', VStr (str ''a1''))]])]"
  have h1: "dict_get ?r ''reviews'' = VList [VDict [(str ''id'', VStr (str ''r1''))]]"
    by code_simp
  have n: "dict_get ?d ''reviews'' = VNone"
    by code_simp
  have g: "dict_get_default ?d ''google_play'' (VList []) = VList []"
    by code_simp
  have a: "dict_get_default ?d ''apple'' (VList []) = VList [VDict [(str ''id'', VStr (str ''a1''))]]"
    by code_simp
  have h2: "(\<forall>rs. dict_get ?d ''reviews'' \<noteq> VList rs)
        \<and> dict_get_default ?d ''google_play'' (VList []) = VList []
        \<and> dict_get_default ?d ''apple'' (VList []) = VList [VDict [(str ''id'', VStr (str ''a1''))]]"
    by (simp only: n g a) simp
  have h3: "(\<forall>xs. VStr (str ''reviews'') \<noteq> VList xs) \<and> (\<forall>d. VStr (str ''reviews'') \<noteq> VDict d)"
    by simp
  from extract_raw_reviews_shapes [of L0 "[]" ?r "[VDict [(str ''id'', VStr (str ''r1''))]]"] h1
  have c1: "extract_raw_reviews L0 (VDict ?r) = Inr (VList [VDict [(str ''id'', VStr (str ''r1''))]])"
    by blast
  from extract_raw_reviews_shapes [of L0 "[]" ?d _ "[]" "[VDict [(str ''id'', VStr (str ''a1''))]]"] h2
  have c2: "extract_raw_reviews L0 (VDict ?d) = Inr (VList [VDict [(str ''id'', VStr (str ''a1''))]])"
    by simp
  from extract_raw_reviews_shapes [of L0 "[]" "[]" _ _ _ "VStr (str ''reviews'')"] h3
  have c3: "extract_raw_reviews L0 (VStr (str ''reviews'')) = Inl ValueError"
    by blast
  from c1 c2 c3 show ?thesis by simp
qed

text \<open>
  Claim C6 as stated fails: a dictionary with none of the three keys does not raise, it
  yields the empty list, because both \<open>get\<close> calls default to \<open>[]\<close>.
\<close>

theorem extract_dict_without_keys_is_empty:
  "extract_raw_reviews L0 (VDict []) = Inr (VList [])
   \<and> extract_raw_reviews L0 (VDict [(str ''items'', VList [VDict [(str ''id'', VStr (str ''r1''))]])])
       = Inr (VList [])"
  by code_simp

section \<open>Index filters\<close>

text \<open>
  Claim C7, as amended, for timestamps that are absent or not zero. \<open>build_filter\<close> puts
  every clause into the one \<open>must\<close> list: an any-of clause on the ratings that lie within
  1 to 5 when there are any, an exact-match clause for each of device, country and version
  that is not empty after trimming, and a range clause \<open>gte = start_ts\<close>, \<open>lte = end_ts\<close>
  when either bound is set, an absent bound staying open. It returns no filter exactly
  when none of these clauses arises.
\<close>

theorem build_filter_clauses:
  assumes "start_ts \<noteq> Some 0" and "end_ts \<noteq> Some 0"
  shows "build_filter L device rating_values country version start_ts end_ts =
     (let clean = filter (\<lambda>r. 1 \<le> r \<and> r \<le> 5) (case rating_values of None \<Rightarrow> [] | Some rs \<Rightarrow> rs);
          must = (if clean \<noteq> [] then [FieldMatch ''rating'' (MatchAny clean)] else [])
               @ (if py_strip device \<noteq> [] then [FieldMatch ''device'' (MatchValue (py_lower L (py_strip device)))] else [])
               @ (if py_strip country \<noteq> [] then [FieldMatch ''country'' (MatchValue (py_lower L (py_strip country)))] else [])
               @ (if py_strip version \<noteq> [] then [FieldMatch ''version'' (MatchValue (py_lower L (py_strip version)))] else [])
               @ (if start_ts \<noteq> None \<or> end_ts \<noteq> None then [FieldRange ''date_ts'' (Range start_ts end_ts)] else [])
      in if clean = [] \<and> py_strip device = [] \<and> py_strip country = [] \<and> py_strip version = []
            \<and> start_ts = None \<and> end_ts = None
         then None else Some (Filter must))"
proof -
  have rng: "(\<lambda>r::int. r \<in> set [1, 2, 3, 4, 5]) = (\<lambda>r. 1 \<le> r \<and> r \<le> 5)"
    by (rule ext) auto
  have clean: "(case rv of None \<Rightarrow> [] | Some rs \<Rightarrow> filter P rs)
                 = filter P (case rv of None \<Rightarrow> [] | Some rs \<Rightarrow> rs)"
    for rv :: "int list option" and P
    by (cases rv) simp_all
  have norm: "(if s \<noteq> [] then py_lower L (py_strip s) else []) = py_lower L (py_strip s)" for s
    by (simp add: py_strip_def py_lower_def)
  have ts: "opt_truthy start_ts \<longleftrightarrow> start_ts \<noteq> None" "opt_truthy end_ts \<longleftrightarrow> end_ts \<noteq> None"
    using assms by (auto simp: opt_truthy_def split: option.splits)
  show ?thesis
    unfolding build_filter_def Let_def rng ts clean norm py_lower_empty
    by simp
qed

text \<open>The theorem at a padded device, a rating out of range and an end bound alone.\<close>

theorem build_filter_clauses_witness:
  "build_filter L0 (str '' iOS '') (Some [7, 5]) [] [] None (Some 1735775999)
     = Some (Filter [FieldMatch ''rating'' (MatchAny [5]),
                     FieldMatch ''device'' (MatchValue (str ''ios'')),
                     FieldRange ''date_ts'' (Range None (Some 1735775999))])"
proof -
  have h1: "(None :: int option) \<noteq> Some 0" by simp
  have h2: "Some (1735775999 :: int) \<noteq> Some 0" by simp
  have e: "py_strip (str '' iOS '') = str ''iOS''" "py_lower L0 (str ''iOS'') = str ''ios''"
    "py_strip [] = []"
    by code_simp+
  have ne: "str ''iOS'' \<noteq> []"
    by (simp add: str_def)
  show ?thesis
    unfolding build_filter_clauses [OF h1 h2] Let_def e using ne by simp
qed

text \<open>
  Claim C7 as stated fails: a rating list with no value in range and a device of blanks
  are inputs that are not empty and give no filter; so does a start timestamp of \<open>0\<close>,
  which the truth test \<open>start_ts or end_ts\<close> takes for absent.
\<close>

theorem build_filter_none_for_nonempty_input:
  "build_filter L0 [] (Some [7]) [] [] None None = None
   \<and> build_filter L0 (str ''  '') None [] [] None None = None
   \<and> build_filter L0 [] None [] [] (Some 0) None = None"
  by code_simp

section \<open>Upsert\<close>

text \<open>
  A point id exists for every string without a surrogate: the digest is made of
  hexadecimal digits. On a surrogate \<open>_point_id\<close> raises.
\<close>

lemma hex_value_hex_char: "\<exists>v. hex_value (hex_char d) = Some v"
proof -
  have "0 \<le> d mod 16" "d mod 16 < 16" by simp_all
  then show ?thesis
    by (auto simp: hex_char_def hex_value_def Let_def)
qed

lemma hexstr_chars: "c \<in> set (hexstr w n) \<Longrightarrow> \<exists>v. hex_value c = Some v"
  by (induction w arbitrary: n) (auto simp: hex_value_hex_char)

lemma length_hexstr: "length (hexstr w n) = w"
  by (induction w arbitrary: n) auto

lemma int_base16_from_hex:
  "(\<And>c. c \<in> set cs \<Longrightarrow> \<exists>v. hex_value c = Some v) \<Longrightarrow> \<exists>n. int_base16_from acc cs = Inr n"
proof (induction cs arbitrary: acc)
  case Nil
  then show ?case by simp
next
  case (Cons c cs)
  from Cons.prems [of c] obtain v where v: "hex_value c = Some v" by auto
  from Cons.IH [of "acc * 16 + v"] Cons.prems
  obtain n where "int_base16_from (acc * 16 + v) cs = Inr n" by auto
  with v show ?case by simp
qed

lemma point_id_str:
  assumes "list_all encodable s"
  shows "\<exists>n. point_id L (VStr s) = Inr n"
proof -
  let ?h = "take 15 (hexstr 32 (md5_digest L (concat (map utf8_bytes s)) mod 2 ^ 128))"
  have ne: "?h \<noteq> []"
    by (simp add: length_hexstr flip: length_0_conv)
  have "\<And>c. c \<in> set ?h \<Longrightarrow> \<exists>v. hex_value c = Some v"
    using hexstr_chars by (metis in_set_takeD)
  from int_base16_from_hex [OF this] ne show ?thesis
    by (simp add: point_id_def int_base16_def md5_hexdigest_encodable [OF assms])
qed

lemma point_id_surrogate:
  "\<not> list_all encodable s \<Longrightarrow> point_id L (VStr s) = Inl UnicodeEncodeError"
  by (simp add: point_id_def md5_hexdigest_surrogate)


lemma build_points_short:
  assumes "\<exists>i\<in>set idxs. length metadatas \<le> i \<or> length documents \<le> i"
  shows "\<exists>e. build_points L ids documents metadatas embeddings idxs = Inl e"
  using assms
proof (induction idxs)
  case Nil
  then show ?case by simp
next
  case (Cons i rest)
  show ?case
  proof (cases "length metadatas \<le> i \<or> length documents \<le> i")
    case True
    then show ?thesis by auto
  next
    case False
    with Cons.prems have "\<exists>i\<in>set rest. length metadatas \<le> i \<or> length documents \<le> i"
      by auto
    from Cons.IH [OF this] obtain e where e: "build_points L ids documents metadatas embeddings rest = Inl e"
      by blast
    with False show ?thesis
      by (auto split: sum.splits)
  qed
qed

lemma build_points_short_ids:
  assumes "\<exists>i\<in>set idxs. length metadatas \<le> i \<or> length documents \<le> i"
    and "\<And>i. i \<in> set idxs \<Longrightarrow> \<exists>pid. point_id L (ids ! i) = Inr pid"
  shows "build_points L ids documents metadatas embeddings idxs = Inl IndexError"
  using assms
proof (induction idxs)
  case Nil
  then show ?case by simp
next
  case (Cons i rest)
  show ?case
  proof (cases "length metadatas \<le> i \<or> length documents \<le> i")
    case True
    then show ?thesis by auto
  next
    case False
    with Cons.prems have "\<exists>i\<in>set rest. length metadatas \<le> i \<or> length documents \<le> i"
      by auto
    with Cons.IH Cons.prems(2)
    have rest: "build_points L ids documents metadatas embeddings rest = Inl IndexError"
      by simp
    from Cons.prems(2) [of i] obtain pid where "point_id L (ids ! i) = Inr pid" by auto
    with False rest show ?thesis by simp
  qed
qed

lemma build_points_exact:
  assumes "\<And>i. i \<in> set idxs \<Longrightarrow> i < length metadatas \<and> i < length documents
              \<and> i < length embeddings \<and> point_id L (ids ! i) = Inr (pids ! i)"
  shows "build_points L ids documents metadatas embeddings idxs
         = Inr (map (\<lambda>i. (pids ! i, embeddings ! i, payload_of (metadatas ! i) (documents ! i))) idxs)"
  using assms
proof (induction idxs)
  case Nil
  then show ?case by simp
next
  case (Cons i rest)
  from Cons.prems [of i] have b: "i < length metadatas" "i < length documents"
    "i < length embeddings" and pid: "point_id L (ids ! i) = Inr (pids ! i)" by auto
  from Cons.IH Cons.prems have
    "build_points L ids documents metadatas embeddings rest
     = Inr (map (\<lambda>i. (pids ! i, embeddings ! i, payload_of (metadatas ! i) (documents ! i))) rest)"
    by auto
  with b pid show ?case by simp
qed

lemma fold_upsert_map:
  "fold (\<lambda>p s. s(fst p \<mapsto> snd p)) (map (\<lambda>i. (k i, v i)) idxs) store
   = fold (\<lambda>i s. s(k i \<mapsto> v i)) idxs store"
  by (induction idxs arbitrary: store) simp_all

text \<open>
  Claim C8, as amended. \<open>add_embeddings\<close> compares no lengths. It fails when \<open>ids\<close> is not
  empty and is longer than the documents or the metadata, by a subscript past the end
  (\<open>IndexError\<close>) when \<open>_point_id\<close> returns for every id. With an empty \<open>ids\<close> it returns at
  once and leaves the collection as it is. When \<open>ids\<close> is not the longer list and
  \<open>_point_id\<close> returns for every id, which it does for strings without a surrogate code
  point, it succeeds: for each index of \<open>ids\<close> in turn it writes the point made of the
  numeric id, the embedding of the document at that index and the metadata at that index
  with the document added; the documents and metadata past the length of \<open>ids\<close> are not
  looked at.
\<close>

theorem add_embeddings_length_mismatch:
  "(ids \<noteq> [] \<and> (length documents < length ids \<or> length metadatas < length ids)
      \<longrightarrow> (\<exists>e. add_embeddings embedder L ids documents metadatas store = Inl e)
          \<and> ((\<forall>v\<in>set ids. \<exists>pid. point_id L v = Inr pid)
               \<longrightarrow> add_embeddings embedder L ids documents metadatas store = Inl IndexError))
   \<and> (ids = [] \<longrightarrow> add_embeddings embedder L ids documents metadatas store = Inr store)
   \<and> (length ids \<le> length documents \<and> length ids \<le> length metadatas
        \<and> (\<forall>i<length ids. point_id L (ids ! i) = Inr (pids ! i))
      \<longrightarrow> add_embeddings embedder L ids documents metadatas store
          = Inr (fold (\<lambda>i s. s(pids ! i \<mapsto>
                         (embedder (documents ! i),
                          AList.update (str ''document'') (VStr (documents ! i)) (metadatas ! i))))
                   [0..<length ids] store))
   \<and> (length ids \<le> length documents \<and> length ids \<le> length metadatas
        \<and> (\<forall>v\<in>set ids. \<exists>s. v = VStr s \<and> list_all encodable s)
      \<longrightarrow> (\<exists>store'. add_embeddings embedder L ids documents metadatas store = Inr store'))"
proof (intro conjI impI)
  assume h: "ids \<noteq> [] \<and> (length documents < length ids \<or> length metadatas < length ids)"
  then have "\<exists>i\<in>set [0..<length ids]. length metadatas \<le> i \<or> length documents \<le> i"
    by (auto intro: bexI [of _ "length documents"] bexI [of _ "length metadatas"])
  from build_points_short [OF this, of L ids "map embedder documents"] h
  show "\<exists>e. add_embeddings embedder L ids documents metadatas store = Inl e"
    by (auto simp: add_embeddings_def Let_def split: sum.splits)
next
  assume h: "ids \<noteq> [] \<and> (length documents < length ids \<or> length metadatas < length ids)"
    and s: "\<forall>v\<in>set ids. \<exists>pid. point_id L v = Inr pid"
  from h have short: "\<exists>i\<in>set [0..<length ids]. length metadatas \<le> i \<or> length documents \<le> i"
    by (auto intro: bexI [of _ "length documents"] bexI [of _ "length metadatas"])
  have "build_points L ids documents metadatas (map embedder documents) [0..<length ids]
          = Inl IndexError"
  proof (rule build_points_short_ids [OF short])
    fix i
    assume "i \<in> set [0..<length ids]"
    with s show "\<exists>pid. point_id L (ids ! i) = Inr pid" by simp
  qed
  with h show "add_embeddings embedder L ids documents metadatas store = Inl IndexError"
    by (simp add: add_embeddings_def Let_def)
next
  assume "ids = []"
  then show "add_embeddings embedder L ids documents metadatas store = Inr store"
    by (simp add: add_embeddings_def)
next
  assume h: "length ids \<le> length documents \<and> length ids \<le> length metadatas
        \<and> (\<forall>i<length ids. point_id L (ids ! i) = Inr (pids ! i))"
  have bp: "build_points L ids documents metadatas (map embedder documents) [0..<length ids]
        = Inr (map (\<lambda>i. (pids ! i, map embedder documents ! i,
                          payload_of (metadatas ! i) (documents ! i))) [0..<length ids])"
  proof (rule build_points_exact)
    fix i
    assume "i \<in> set [0..<length ids]"
    with h show "i < length metadatas \<and> i < length documents
              \<and> i < length (map embedder documents) \<and> point_id L (ids ! i) = Inr (pids ! i)"
      by auto
  qed
  have m: "map (\<lambda>i. (pids ! i, map embedder documents ! i,
                     payload_of (metadatas ! i) (documents ! i))) [0..<length ids]
           = map (\<lambda>i. (pids ! i, embedder (documents ! i),
                     AList.update (str ''document'') (VStr (documents ! i)) (metadatas ! i)))
               [0..<length ids]"
    using h by (simp add: payload_of_def)
  show "add_embeddings embedder L ids documents metadatas store
          = Inr (fold (\<lambda>i s. s(pids ! i \<mapsto>
                         (embedder (documents ! i),
                          AList.update (str ''document'') (VStr (documents ! i)) (metadatas ! i))))
                   [0..<length ids] store)"
  proof (cases "ids = []")
    case True
    then show ?thesis by (simp add: add_embeddings_def)
  next
    case False
    then show ?thesis
      unfolding add_embeddings_def Let_def bp m upsert_def
      by (simp add: fold_upsert_map)
  qed
next
  assume h: "length ids \<le> length documents \<and> length ids \<le> length metadatas
        \<and> (\<forall>v\<in>set ids. \<exists>s. v = VStr s \<and> list_all encodable s)"
  have "\<exists>pid. point_id L (ids ! i) = Inr pid" if "i < length ids" for i
  proof -
    from that h obtain s where "ids ! i = VStr s" "list_all encodable s"
      by (metis nth_mem)
    with point_id_str [of s L] show ?thesis by simp
  qed
  then have "\<forall>i. \<exists>pid. i < length ids \<longrightarrow> point_id L (ids ! i) = Inr pid"
    by blast
  then obtain f where f: "\<And>i. i < length ids \<Longrightarrow> point_id L (ids ! i) = Inr (f i)"
    by metis
  have "build_points L ids documents metadatas (map embedder documents) [0..<length ids]
        = Inr (map (\<lambda>i. (map f [0..<length ids] ! i, map embedder documents ! i,
                          payload_of (metadatas ! i) (documents ! i))) [0..<length ids])"
  proof (rule build_points_exact)
    fix i
    assume "i \<in> set [0..<length ids]"
    with h f show "i < length metadatas \<and> i < length documents
              \<and> i < length (map embedder documents)
              \<and> point_id L (ids ! i) = Inr (map f [0..<length ids] ! i)"
      by auto
  qed
  then show "\<exists>store'. add_embeddings embedder L ids documents metadatas store = Inr store'"
    by (simp add: add_embeddings_def Let_def)
qed

text \<open>
  The theorem at two ids for one document, at no id, and at one id for two documents and
  two metadata rows, of which one point is written.
\<close>

theorem add_embeddings_length_mismatch_witness:
  "add_embeddings length_embedder L0 [VStr (str ''a''), VStr (str ''b'')] [str ''x''] [[]] Map.empty
     = Inl IndexError
   \<and> add_embeddings length_embedder L0 [] [str ''x''] [] sample_collection = Inr sample_collection
   \<and> add_embeddings length_embedder L0 [VStr (str ''a'')] [str ''x'', str ''y'']
        [[(str ''id'', VStr (str ''a''))], [(str ''id'', VStr (str ''other''))]] Map.empty
     = Inr [57446577476672362 \<mapsto>
              ([1], [(str ''id'', VStr (str ''a'')), (str ''document'', VStr (str ''x''))])]"
proof -
  have pa: "point_id L0 (VStr (str ''a'')) = Inr 57446577476672362"
    and pb: "point_id L0 (VStr (str ''b'')) = Inr 661666306091311870"
    by code_simp+
  note t1 = add_embeddings_length_mismatch
    [of "[VStr (str ''a''), VStr (str ''b'')]" "[str ''x'']" "[[]]" length_embedder L0 Map.empty]
  note t2 = add_embeddings_length_mismatch
    [of "[]" "[str ''x'']" "[]" length_embedder L0 sample_collection]
  note t3 = add_embeddings_length_mismatch
    [of "[VStr (str ''a'')]" "[str ''x'', str ''y'']"
        "[[(str ''id'', VStr (str ''a''))], [(str ''id'', VStr (str ''other''))]]"
        length_embedder L0 Map.empty "[57446577476672362]"]
  from t1 pa pb have c1: "add_embeddings length_embedder L0 [VStr (str ''a''), VStr (str ''b'')]
      [str ''x''] [[]] Map.empty = Inl IndexError"
    by simp
  from t2 have c2: "add_embeddings length_embedder L0 [] [str ''x''] [] sample_collection
      = Inr sample_collection"
    by simp
  have u: "AList.update (str ''document'') (VStr (str ''x'')) [(str ''id'', VStr (str ''a''))]
             = [(str ''id'', VStr (str ''a'')), (str ''document'', VStr (str ''x''))]"
    by code_simp
  have le: "length_embedder (str ''x'') = [1]"
    by (simp add: length_embedder_def str_def)
  have ne: "str ''id'' \<noteq> str ''document''"
    by code_simp
  from t3 pa ne have c3: "add_embeddings length_embedder L0 [VStr (str ''a'')] [str ''x'', str ''y'']
        [[(str ''id'', VStr (str ''a''))], [(str ''id'', VStr (str ''other''))]] Map.empty
     = Inr [57446577476672362 \<mapsto>
              ([1], [(str ''id'', VStr (str ''a'')), (str ''document'', VStr (str ''x''))])]"
    by (simp add: u le)
  from c1 c2 c3 show ?thesis by blast
qed

text \<open>
  Claim C8 as stated fails: one id with two documents and two metadata rows is no error;
  one point is stored and the second document and row are dropped.
\<close>

theorem add_embeddings_drops_trailing_documents:
  "map_sum id points_count
     (add_embeddings length_embedder L0 [VStr (str ''review-1'')] [str ''x'', str ''y'']
        [[], [(str ''id'', VStr (str ''other''))]] Map.empty) = Inr 1"
proof -
  have "build_points L0 [VStr (str ''review-1'')] [str ''x'', str ''y'']
          [[], [(str ''id'', VStr (str ''other''))]]
          (map length_embedder [str ''x'', str ''y'']) [0..<length [VStr (str ''review-1'')]]
        = Inr [(55460312933783979, [1], [(str ''document'', VStr (str ''x''))])]"
    by code_simp
  then show ?thesis
    by (simp add: add_embeddings_def upsert_def points_count_def)
qed

text \<open>An id that is not a string, or holds a lone surrogate, makes \<open>_point_id\<close> raise.\<close>

lemma add_embeddings_bad_id:
  "add_embeddings length_embedder L0 [VInt 7] [str ''x''] [[]] Map.empty = Inl AttributeError"
  "add_embeddings length_embedder L0 [VStr [55296]] [str ''x''] [[]] Map.empty
     = Inl UnicodeEncodeError"
  by (simp_all add: add_embeddings_def point_id_def md5_hexdigest_def utf8_encode_def encodable_def)

section \<open>Idempotent ingestion\<close>










text \<open>
  The fallback id changes with each of the three parts that it hashes: the sample review,
  the same with another display date, with another title, and with another text.
\<close>

lemma stable_review_id_parts:
  "stable_review_id L0 sample_review = Inr (str ''review-82a6479f4a84'')"
  "stable_review_id L0 (AList.update (str ''date'') (VStr (str ''November 02, 2025'')) sample_review)
     = Inr (str ''review-20557c27bd8e'')"
  "stable_review_id L0 (AList.update (str ''title'') (VStr (str ''B'')) sample_review)
     = Inr (str ''review-de03663ca53d'')"
  "stable_review_id L0 (AList.update (str ''snippet'') (VStr (str ''Crashes'')) sample_review)
     = Inr (str ''review-5e23918bf410'')"
  by code_simp+

section \<open>Query: the mobile model hint\<close>

lemma query_notes_filters:
  assumes "query search L question start_date end_date device rating country version mobile_model = Inr r"
  shows "qr_notes r = (if str_or_empty mobile_model \<noteq> []
                       then [mobile_model_note (if py_lower L (str_or_empty device) = str ''ios''
                                                then str ''iOS'' else str ''Android'')]
                       else [])"
    and "map_of (qr_applied_filters r) (str ''device'')
         = (if str_or_empty device \<noteq> []
            then Some (VStr (if py_lower L (str_or_empty device) = str ''ios'' then str ''iOS''
                             else str ''Android''))
            else None)"
proof -
  have ne: "str ''start_date'' \<noteq> str ''device''" "str ''end_date'' \<noteq> str ''device''"
    "str ''rating'' \<noteq> str ''device''" "str ''country'' \<noteq> str ''device''"
    "str ''version'' \<noteq> str ''device''"
    by code_simp+
  from assms obtain docs where
    r: "r = \<lparr>qr_question = question, qr_retrieved_documents = docs,
        qr_applied_filters =
              (if str_or_empty start_date \<noteq> []
               then [(str ''start_date'', VStr (str_or_empty start_date))] else [])
            @ (if str_or_empty end_date \<noteq> []
               then [(str ''end_date'', VStr (str_or_empty end_date))] else [])
            @ (if py_lower L (str_or_empty device) \<noteq> []
               then [(str ''device'', VStr (if py_lower L (str_or_empty device) = str ''ios''
                                           then str ''iOS'' else str ''Android''))] else [])
            @ (if filter (\<lambda>r. r \<in> set [1, 2, 3, 4, 5]) (case rating of None \<Rightarrow> [] | Some rs \<Rightarrow> rs) \<noteq> []
               then [(str ''rating'', VList (map VInt (filter (\<lambda>r. r \<in> set [1, 2, 3, 4, 5])
                                                        (case rating of None \<Rightarrow> [] | Some rs \<Rightarrow> rs))))]
               else [])
            @ (if py_lower L (py_strip (str_or_empty country)) \<noteq> []
               then [(str ''country'', VStr (py_lower L (py_strip (str_or_empty country))))] else [])
            @ (if py_lower L (py_strip (str_or_empty version)) \<noteq> []
               then [(str ''version'', VStr (py_lower L (py_strip (str_or_empty version))))] else []),
        qr_notes = (if str_or_empty mobile_model \<noteq> []
                       then [mobile_model_note (if py_lower L (str_or_empty device) = str ''ios''
                                                then str ''iOS'' else str ''Android'')]
                       else [])\<rparr>"
    unfolding query_def Let_def by (auto split: sum.splits)
  show "qr_notes r = (if str_or_empty mobile_model \<noteq> []
                       then [mobile_model_note (if py_lower L (str_or_empty device) = str ''ios''
                                                then str ''iOS'' else str ''Android'')]
                       else [])"
    unfolding r by simp
  have other: "map_of (if c then [(k, v)] else []) (str ''device'') = None"
    if "k \<noteq> str ''device''" for c k and v :: pyval
    using that by simp
  have this_key: "map_of (if c then [(str ''device'', v)] else []) (str ''device'')
                    = (if c then Some v else None)" for c and v :: pyval
    by simp
  show "map_of (qr_applied_filters r) (str ''device'')
         = (if str_or_empty device \<noteq> []
            then Some (VStr (if py_lower L (str_or_empty device) = str ''ios'' then str ''iOS''
                             else str ''Android''))
            else None)"
    unfolding r query_result.simps map_of_append map_add_def other [OF ne(1)] other [OF ne(2)]
      other [OF ne(3)] other [OF ne(4)] other [OF ne(5)] this_key py_lower_empty
    by simp
qed

text \<open>
  Claim C2, at a failing input. With \<open>mobile_model = "iPhone 14"\<close> and no device the note
  is there and says that the device filter was used instead, naming Android; but no device
  filter is used: the filter given to the index is \<open>None\<close> and \<open>applied_filters\<close> is empty.
  \<open>effective_device\<close> goes into the note only. With the device hint \<open>iOS\<close> beside the same
  model the device clause and the \<open>applied_filters\<close> entry are there.
\<close>

theorem query_mobile_model_without_device:
  "query no_hits L0 (str ''Is login slow?'') None None None None None None (Some (str ''iPhone 14''))
     = Inr \<lparr>qr_question = str ''Is login slow?'', qr_retrieved_documents = [],
             qr_applied_filters = [],
             qr_notes = [str ''The mobile_model filter is not supported in our current system and was ignored. We used the device filter instead: Android.'']\<rparr>
   \<and> query_filter L0 None None None None None None = Inr None
   \<and> query no_hits L0 (str ''Is login slow?'') None None (Some (str ''iOS'')) None None None
       (Some (str ''iPhone 14''))
     = Inr \<lparr>qr_question = str ''Is login slow?'', qr_retrieved_documents = [],
             qr_applied_filters = [(str ''device'', VStr (str ''iOS''))],
             qr_notes = [str ''The mobile_model filter is not supported in our current system and was ignored. We used the device filter instead: iOS.'']\<rparr>
   \<and> query_filter L0 None None (Some (str ''iOS'')) None None None
     = Inr (Some (Filter [FieldMatch ''device'' (MatchValue (str ''ios''))]))"
  by code_simp

section \<open>Query: date bounds\<close>

text \<open>
  Claim C9, at a failing input. The end timestamp given to the index filter is the parsed
  timestamp plus 86399, as claimed. But for an end date with a UTC offset (a month-name
  form, or ISO with \<open>Z\<close>) \<open>end_dt\<close> is timezone-aware, while the stored \<open>YYYY-MM-DD\<close>
  date of every result parses to a naive datetime: the second pass compares the two and
  raises \<open>TypeError\<close>, so no review of that day is returned. With the end date written
  \<open>2025-01-01\<close> both are naive and the review of that day is kept.
\<close>

theorem query_aware_end_date_raises:
  "query_filter L0 None (Some (str ''January 1, 2025'')) None None None None
     = Inr (Some (Filter [FieldRange ''date_ts'' (Range None (Some (1735689600 + 86399)))]))
   \<and> query one_hit L0 (str ''good app'') None (Some (str ''January 1, 2025'')) None None None None None
     = Inl TypeError
   \<and> map_sum id (\<lambda>r. length (qr_retrieved_documents r))
        (query one_hit L0 (str ''good app'') None (Some (str ''2025-01-01'')) None None None None None)
     = Inr 1"
  by code_simp

text \<open>Without bounds the second pass keeps a result whatever its stored date is.\<close>

lemma is_date_in_range_unbounded: "is_date_in_range L v None None = Inr True"
  by (simp add: is_date_in_range_def)

lemma collect_documents_unbounded:
  "length retrieved < 12 \<Longrightarrow>
   collect_documents L results None None idxs retrieved
     = Inr (take 12 (retrieved @ map (evidence_at L results) idxs))"
proof (induction idxs arbitrary: retrieved)
  case Nil
  then show ?case by simp
next
  case (Cons i rest)
  show ?case
  proof (cases "12 \<le> length (retrieved @ [evidence_at L results i])")
    case True
    with Cons.prems have "length retrieved = 11" by simp
    then show ?thesis
      using True by (simp add: is_date_in_range_unbounded Let_def)
  next
    case False
    then have "length (retrieved @ [evidence_at L results i]) < 12" by simp
    from Cons.IH [OF this] False show ?thesis
      by (simp add: is_date_in_range_unbounded Let_def)
  qed
qed

lemma query_filter_no_dates:
  assumes "str_or_empty start_date = []" and "str_or_empty end_date = []"
  shows "\<exists>flt. query_filter L start_date end_date device rating country version = Inr flt"
proof -
  from assms have "parse_date L start_date = None" "parse_date L end_date = None"
    by (auto simp: parse_date_def str_or_empty_def split: option.splits)
  then show ?thesis
    by (simp add: query_filter_def bound_ts_def Let_def)
qed

text \<open>
  Claim C10. With neither bound the date test is true for every stored date string, and a
  query whose \<open>start_date\<close> and \<open>end_date\<close> are both empty returns the evidence of the
  retrieved results in order, up to the cap of twelve, which is all of them when the index
  honours the limit of twelve. A result whose stored date does not parse is rejected only
  when a bound is present.
\<close>

theorem query_without_dates_keeps_all:
  "is_date_in_range L v None None = Inr True
   \<and> (str_or_empty start_date = [] \<and> str_or_empty end_date = []
      \<longrightarrow> (\<exists>flt. query_filter L start_date end_date device rating country version = Inr flt
            \<and> (let results = qdrant_query search L question 12 flt
               in \<exists>r. query search L question start_date end_date device rating country version mobile_model = Inr r
                     \<and> qr_retrieved_documents r
                         = take 12 (map (evidence_at L results) [0..<length (res_ids results)])
                     \<and> (length (res_ids results) \<le> 12
                          \<longrightarrow> length (qr_retrieved_documents r) = length (res_ids results)))))
   \<and> (is_date_in_range L v start_dt end_dt = Inr False \<and> parse_date L (Some v) = None
      \<longrightarrow> start_dt \<noteq> None \<or> end_dt \<noteq> None)"
proof (intro conjI impI)
  show "is_date_in_range L v None None = Inr True"
    by (rule is_date_in_range_unbounded)
next
  assume h: "str_or_empty start_date = [] \<and> str_or_empty end_date = []"
  then have p: "parse_date L start_date = None" "parse_date L end_date = None"
    by (auto simp: parse_date_def str_or_empty_def split: option.splits)
  have c: "collect_documents L results None None idxs []
             = Inr (take 12 (map (evidence_at L results) idxs))" for results idxs
    using collect_documents_unbounded [of "[]" L results idxs] by simp
  from h query_filter_no_dates [of start_date end_date L device rating country version]
  obtain flt where f: "query_filter L start_date end_date device rating country version = Inr flt"
    by blast
  have "let results = qdrant_query search L question 12 flt
        in \<exists>r. query search L question start_date end_date device rating country version mobile_model = Inr r
              \<and> qr_retrieved_documents r
                  = take 12 (map (evidence_at L results) [0..<length (res_ids results)])
              \<and> (length (res_ids results) \<le> 12
                   \<longrightarrow> length (qr_retrieved_documents r) = length (res_ids results))"
    unfolding query_def Let_def p c f by simp
  with f show "\<exists>flt. query_filter L start_date end_date device rating country version = Inr flt
            \<and> (let results = qdrant_query search L question 12 flt
               in \<exists>r. query search L question start_date end_date device rating country version mobile_model = Inr r
                     \<and> qr_retrieved_documents r
                         = take 12 (map (evidence_at L results) [0..<length (res_ids results)])
                     \<and> (length (res_ids results) \<le> 12
                          \<longrightarrow> length (qr_retrieved_documents r) = length (res_ids results)))"
    by blast
next
  assume "is_date_in_range L v start_dt end_dt = Inr False \<and> parse_date L (Some v) = None"
  then show "start_dt \<noteq> None \<or> end_dt \<noteq> None"
    by (auto simp: is_date_in_range_def split: if_splits)
qed

text \<open>
  The theorem at an index holding a dated and an undated review: both are returned without
  bounds, and the undated one is rejected under a start bound.
\<close>

theorem query_without_dates_keeps_all_witness:
  "is_date_in_range L0 [] None None = Inr True
   \<and> (\<exists>r. query two_hits L0 (str ''good app'') None (Some []) None None None None None = Inr r
         \<and> length (qr_retrieved_documents r) = 2)
   \<and> parse_date L0 (Some []) = None
   \<and> is_date_in_range L0 [] (Some \<lparr>wall = 1735689600000000, utcoffset = None\<rparr>) None = Inr False"
proof -
  note t1 = query_without_dates_keeps_all
    [where L = L0 and v = "[]" and start_date = None and end_date = "Some []"
       and search = two_hits and question = "str ''good app''" and device = None and rating = None
       and country = None and version = None and mobile_model = None
       and start_dt = "Some \<lparr>wall = 1735689600000000, utcoffset = None\<rparr>" and end_dt = None]
  have h1: "str_or_empty None = [] \<and> str_or_empty (Some []) = []"
    by (simp add: str_or_empty_def)
  have n: "length (res_ids (qdrant_query two_hits L0 (str ''good app'') 12 flt)) = 2" for flt
    by (simp add: qdrant_query_def two_hits_def)
  have h2: "is_date_in_range L0 [] (Some \<lparr>wall = 1735689600000000, utcoffset = None\<rparr>) None = Inr False"
    by code_simp
  have h3: "parse_date L0 (Some []) = None"
    by (simp add: parse_date_def)
  from t1 h1 n have c2: "\<exists>r. query two_hits L0 (str ''good app'') None (Some []) None None None None None = Inr r
         \<and> length (qr_retrieved_documents r) = 2"
    unfolding Let_def by auto
  from t1 have c1: "is_date_in_range L0 [] None None = Inr True"
    by blast
  from c1 c2 h2 h3 show ?thesis by blast
qed

end
